theory Spec2Isabelle
  imports Complex_Main
begin

section \<open>Python values and exceptions\<close>

text \<open>
  The program is the class \<open>GeminiSpeechProcessor\<close> of \<open>diarize.py\<close>. Exceptions are
  values of a sum type: \<open>Inl e\<close> is "raised \<open>e\<close>". A float is the real number it
  denotes. The quotients and products of Python's doubles (the duration,
  \<open>speech_segments * 0.1\<close>, the silence ratio) are the exact ones, which the doubles of
  the program round; the decisions the program takes on doubles are the decisions of the
  model: \<open>int(0.1 * sample_rate)\<close> truncates to the same integer, \<open>speech_segments * 0.1\<close>
  reaches 0.2 from two segments on, and a confidence is compared with the double that
  \<open>0.7\<close> denotes. The float32 arithmetic of numpy, which decides the comparison of an RMS
  with the silence threshold, is a parameter of the model.
\<close>

datatype exn = WaveError | ValueError | ZeroDivisionError | TypeError | AttributeError
  | OverflowError | OSError | ApiError

text \<open>Python's \<open>a / b\<close> on two ints: true division, raising on a zero divisor.\<close>

definition py_truediv :: "int \<Rightarrow> int \<Rightarrow> exn + real" where
  "py_truediv a b = (if b = 0 then Inl ZeroDivisionError else Inr (real_of_int a / real_of_int b))"

text \<open>Python's \<open>int(x)\<close> on a float: truncation towards zero.\<close>

definition py_int :: "real \<Rightarrow> int" where
  "py_int x = (if 0 \<le> x then \<lfloor>x\<rfloor> else \<lceil>x\<rceil>)"

text \<open>Python's \<open>range(start, stop, step)\<close>, as the list of its values; a zero step raises
  \<open>ValueError\<close>.\<close>

function range_up :: "int \<Rightarrow> int \<Rightarrow> int \<Rightarrow> int list" where
  "range_up i stop step = (if 0 < step \<and> i < stop then i # range_up (i + step) stop step else [])"
  by pat_completeness auto
termination
  by (relation "measure (\<lambda>(i, stop, step). nat (stop - i))") auto

function range_down :: "int \<Rightarrow> int \<Rightarrow> int \<Rightarrow> int list" where
  "range_down i stop step = (if step < 0 \<and> stop < i then i # range_down (i + step) stop step else [])"
  by pat_completeness auto
termination
  by (relation "measure (\<lambda>(i, stop, step). nat (i - stop))") auto

declare range_up.simps [simp del] range_down.simps [simp del]

definition py_range :: "int \<Rightarrow> int \<Rightarrow> int \<Rightarrow> exn + int list" where
  "py_range start stop step =
     (if step = 0 then Inl ValueError
      else if 0 < step then Inr (range_up start stop step)
      else Inr (range_down start stop step))"

text \<open>Python's slice \<open>xs[i:j]\<close>: a negative index counts from the end, and both ends are
  clamped to the sequence.\<close>

definition slice_index :: "nat \<Rightarrow> int \<Rightarrow> nat" where
  "slice_index n i = (if i < 0 then nat (max 0 (int n + i)) else min n (nat i))"

definition py_slice :: "'a list \<Rightarrow> int \<Rightarrow> int \<Rightarrow> 'a list" where
  "py_slice xs i j = drop (slice_index (length xs) i) (take (slice_index (length xs) j) xs)"

section \<open>numpy on one-dimensional arrays\<close>

text \<open>
  \<open>np.sqrt(np.mean(a**2))\<close> on a float32 array. On an empty array the mean is NaN (with a
  warning, no exception), and so is the root: \<open>None\<close>. On any other array the result is
  the float32 number that numpy's squares, pairwise sum, division and root give; which
  number that is depends on numpy's rounding and order of summation, not on this program,
  so it is the parameter \<open>float32_rms\<close>: the function from the exact amplitudes of an array
  to the root mean square numpy returns for it.
\<close>

definition np_rms :: "(real list \<Rightarrow> real) \<Rightarrow> real list \<Rightarrow> real option" where
  "np_rms float32_rms xs = (if xs = [] then None else Some (float32_rms xs))"

text \<open>The root mean square in exact arithmetic, which \<open>float32_rms\<close> approximates. The two
  agree where no float32 operation rounds, as on an array of equal amplitudes \<open>1/2\<close>.\<close>

definition exact_rms :: "real list \<Rightarrow> real" where
  "exact_rms xs = sqrt (sum_list (map (\<lambda>x. x\<^sup>2) xs) / real (length xs))"

text \<open>A comparison with NaN is false.\<close>

definition np_gt :: "real option \<Rightarrow> real \<Rightarrow> bool" where
  "np_gt v t = (case v of None \<Rightarrow> False | Some x \<Rightarrow> t < x)"

text \<open>\<open>a.reshape(-1, 2)\<close> followed by \<open>np.mean(a, axis=1)\<close>: the reshape raises
  \<open>ValueError\<close> on an odd number of elements.\<close>

fun pair_means :: "real list \<Rightarrow> real list" where
  "pair_means (x # y # zs) = (x + y) / 2 # pair_means zs"
| "pair_means zs = []"

definition reshape2_mean :: "real list \<Rightarrow> exn + real list" where
  "reshape2_mean xs = (if even (length xs) then Inr (pair_means xs) else Inl ValueError)"

section \<open>The speech presence detector\<close>

text \<open>The attributes \<open>__init__\<close> sets on the processor. The thresholds are written as the
  decimals of the source. The program compares a float32 RMS with the double nearest to
  0.005 or, with another version of numpy, with the float32 nearest to it: the float32
  numbers above either of them are the float32 numbers above \<open>5/1000\<close>.\<close>

record processor =
  silence_threshold :: real
  min_speech_duration :: real

definition new_processor :: processor where
  "new_processor = \<lparr>silence_threshold = 5 / 1000, min_speech_duration = 2 / 10\<rparr>"

text \<open>
  What \<open>wave.open\<close> gives for a readable file: the frame rate, the channel count, the
  sample width in bytes, and \<open>raw\<close>, the numbers \<open>np.frombuffer(frames, dtype)\<close> holds
  for the dtype the sample width selects.
\<close>

record wav_file =
  framerate :: int
  nchannels :: nat
  sampwidth :: nat
  raw :: "real list"

record analysis =
  duration :: real
  rms_energy :: "real option"
  speech_duration :: real
  has_speech :: bool
  silence_ratio :: real

text \<open>The normalisation of lines 73 to 80, by the dtype that the sample width chose:
  int16 for width 2, int32 for width 4, uint8 for width 1, float32 (unchanged) otherwise.\<close>

definition normalize :: "nat \<Rightarrow> real list \<Rightarrow> real list" where
  "normalize sample_width audio_data =
     (if sample_width = 1 \<or> sample_width = 2 \<or> sample_width = 4 then
        (if sample_width = 2 then map (\<lambda>x. x / 32768) audio_data
         else if sample_width = 4 then map (\<lambda>x. x / 2147483648) audio_data
         else map (\<lambda>x. (x - 128) / 128) audio_data)
      else audio_data)"

text \<open>The window loop of lines 92 to 96, over the indices of the range.\<close>

fun count_speech ::
    "(real list \<Rightarrow> real) \<Rightarrow> processor \<Rightarrow> real list \<Rightarrow> int \<Rightarrow> int list \<Rightarrow> nat \<Rightarrow> nat" where
  "count_speech float32_rms self audio_data window_size [] speech_segments = speech_segments"
| "count_speech float32_rms self audio_data window_size (i # rest) speech_segments =
     count_speech float32_rms self audio_data window_size rest
       (if np_gt (np_rms float32_rms (py_slice audio_data i (i + window_size)))
             (silence_threshold self)
        then speech_segments + 1 else speech_segments)"

text \<open>
  The body of the \<open>try\<close> of \<open>analyze_audio_content\<close>, from the decoded file on. The window
  size is \<open>int(0.1 * sample_rate)\<close>; on the integer frame rates of a wave file the double
  product truncates to the same integer as the exact tenth, which is what is written here.
  \<open>speech_segments * 0.1\<close> is the exact tenth as well. The amplitudes are the exact
  quotients of the normalisation; what float32 makes of them is part of \<open>float32_rms\<close>.
\<close>

definition analyze_body ::
    "(real list \<Rightarrow> real) \<Rightarrow> processor \<Rightarrow> wav_file \<Rightarrow> exn + analysis" where
  "analyze_body float32_rms self wav =
     (case (if nchannels wav = 2 then reshape2_mean (raw wav) else Inr (raw wav)) of
        Inl e \<Rightarrow> Inl e
      | Inr averaged \<Rightarrow>
          (let audio_data = normalize (sampwidth wav) averaged;
               rms = np_rms float32_rms audio_data
           in case py_truediv (int (length audio_data)) (framerate wav) of
                Inl e \<Rightarrow> Inl e
              | Inr dur \<Rightarrow>
                  (let window_size = py_int (real_of_int (framerate wav) / 10)
                   in case py_range 0 (int (length audio_data) - window_size) window_size of
                        Inl e \<Rightarrow> Inl e
                      | Inr idxs \<Rightarrow>
                          (let speech_segments =
                                 count_speech float32_rms self audio_data window_size idxs 0;
                               speech_dur = real speech_segments / 10
                           in Inr \<lparr>duration = dur,
                                   rms_energy = rms,
                                   speech_duration = speech_dur,
                                   has_speech = (min_speech_duration self \<le> speech_dur
                                                 \<and> np_gt rms (silence_threshold self)),
                                   silence_ratio = (if 0 < dur then 1 - speech_dur / dur else 1)\<rparr>))))"

text \<open>The dictionary the \<open>except Exception\<close> branch returns.\<close>

definition fallback :: analysis where
  "fallback = \<lparr>duration = 0, rms_energy = Some 0, speech_duration = 0, has_speech = True,
               silence_ratio = 1\<rparr>"

text \<open>\<open>analyze_audio_content\<close>: \<open>opened\<close> is what opening and reading the wave file gave, an
  exception or the decoded file; every exception of the body is caught as well.\<close>

definition analyze_audio_content ::
    "(real list \<Rightarrow> real) \<Rightarrow> processor \<Rightarrow> exn + wav_file \<Rightarrow> analysis" where
  "analyze_audio_content float32_rms self opened =
     (case opened of
        Inl e \<Rightarrow> fallback
      | Inr wav \<Rightarrow> (case analyze_body float32_rms self wav of Inl e \<Rightarrow> fallback | Inr a \<Rightarrow> a))"

section \<open>The transcript validator\<close>

text \<open>
  What \<open>json.loads\<close> returns. A JSON object is the dictionary of its members, looked up
  by key. A number is an int of any size or a float: \<open>JFloat x\<close> is the finite double of
  value \<open>x\<close> (the double nearest to the literal, so that \<open>0.7\<close> and
  \<open>0.69999999999999999\<close> are the same \<open>JFloat\<close>), and \<open>JNaN\<close>, \<open>JPosInf\<close> and \<open>JNegInf\<close>
  are the floats that \<open>NaN\<close>, \<open>Infinity\<close> (or a literal too large for a double) and
  \<open>-Infinity\<close> parse to.
\<close>

datatype json = JNull | JBool bool | JInt int | JFloat real | JNaN | JPosInf | JNegInf
  | JStr string | JArr "json list" | JObj "(string \<times> json) list"

text \<open>\<open>d.get(key, default)\<close>.\<close>

definition dict_get :: "(string \<times> json) list \<Rightarrow> string \<Rightarrow> json \<Rightarrow> json" where
  "dict_get d k dflt = (case map_of d k of None \<Rightarrow> dflt | Some v \<Rightarrow> v)"

text \<open>Python's truth value, for \<open>not transcript\<close>.\<close>

fun truthy :: "json \<Rightarrow> bool" where
  "truthy JNull = False"
| "truthy (JBool b) = b"
| "truthy (JInt n) = (n \<noteq> 0)"
| "truthy (JFloat x) = (x \<noteq> 0)"
| "truthy JNaN = True"
| "truthy JPosInf = True"
| "truthy JNegInf = True"
| "truthy (JStr s) = (s \<noteq> [])"
| "truthy (JArr xs) = (xs \<noteq> [])"
| "truthy (JObj d) = (d \<noteq> [])"

text \<open>What \<open>for entry in transcript\<close> iterates over: the elements of a list, the keys of a
  dictionary, the characters of a string; anything else is not iterable.\<close>

fun py_iter :: "json \<Rightarrow> exn + json list" where
  "py_iter (JArr xs) = Inr xs"
| "py_iter (JObj d) = Inr (map (\<lambda>k. JStr k) (remdups (map fst d)))"
| "py_iter (JStr s) = Inr (map (\<lambda>c. JStr [c]) s)"
| "py_iter v = Inl TypeError"

text \<open>The double that the literal \<open>0.7\<close> of line 218 denotes:
  \<open>3152519739159347 / 2^52\<close>, a little below seven tenths.\<close>

definition float_0_7 :: real where
  "float_0_7 = 3152519739159347 / 4503599627370496"

text \<open>\<open>v < t\<close> for a finite double \<open>t\<close>: defined on ints, floats and bools (a bool is the
  int 0 or 1), where Python compares the exact values, an int of any size included; a
  comparison with NaN is false; \<open>TypeError\<close> on every other value.\<close>

fun py_lt :: "json \<Rightarrow> real \<Rightarrow> exn + bool" where
  "py_lt (JInt n) t = Inr (real_of_int n < t)"
| "py_lt (JFloat x) t = Inr (x < t)"
| "py_lt (JBool b) t = Inr ((if b then 1 else 0) < t)"
| "py_lt JNaN t = Inr False"
| "py_lt JPosInf t = Inr False"
| "py_lt JNegInf t = Inr True"
| "py_lt v t = Inl TypeError"

text \<open>
  The format \<open>{confidence:.2f}\<close> of line 219. A float or a bool formats; an int is
  converted to a double first, which raises \<open>OverflowError\<close> when the int rounds to
  \<open>2^1024\<close> or beyond, that is from \<open>2^1024 - 2^970\<close> on in absolute value; a string refuses
  the format code and the other values refuse any format.
\<close>

definition int_fits_float :: "int \<Rightarrow> bool" where
  "int_fits_float n = (\<bar>n\<bar> < 2 ^ 1024 - 2 ^ 970)"

fun format_2f :: "json \<Rightarrow> exn + unit" where
  "format_2f (JInt n) = (if int_fits_float n then Inr () else Inl OverflowError)"
| "format_2f (JFloat x) = Inr ()"
| "format_2f (JBool b) = Inr ()"
| "format_2f JNaN = Inr ()"
| "format_2f JPosInf = Inr ()"
| "format_2f JNegInf = Inr ()"
| "format_2f (JStr s) = Inl ValueError"
| "format_2f v = Inl TypeError"

text \<open>The list of suspicious phrases of lines 223 and 224 is empty.\<close>

definition suspicious_phrases :: "string list" where
  "suspicious_phrases = []"

definition lower_char :: "char \<Rightarrow> char" where
  "lower_char c =
     (let n = (of_char c :: nat) in if 65 \<le> n \<and> n \<le> 90 then char_of (n + 32) else c)"

fun contains :: "string \<Rightarrow> string \<Rightarrow> bool" where
  "contains [] phrase = (phrase = [])"
| "contains (c # cs) phrase = (take (length phrase) (c # cs) = phrase \<or> contains cs phrase)"

text \<open>\<open>any(phrase in text.lower() for phrase in suspicious_phrases)\<close>: the generator
  evaluates \<open>text.lower()\<close> once per phrase, so on the empty list the text is never touched,
  whatever its type.\<close>

fun any_suspicious :: "json \<Rightarrow> string list \<Rightarrow> exn + bool" where
  "any_suspicious text [] = Inr False"
| "any_suspicious text (phrase # rest) =
     (case text of
        JStr s \<Rightarrow> (if contains (map lower_char s) phrase then Inr True else any_suspicious text rest)
      | _ \<Rightarrow> Inl AttributeError)"

text \<open>The lines the validator prints, one constructor for each \<open>print\<close> call, carrying the
  values the line interpolates.\<close>

datatype out_line =
    TranscriptHeader
  | NoSpeechDetected
  | FilteredLowConfidence json json json json
  | FilteredSuspicious json json json
  | WarningTooLong
  | WarningExpected int nat
  | NoHighConfidence
  | TranscriptLine json json json json
  | RawHeader
  | RawText string

text \<open>
  The loop of lines 211 to 230. It returns the lines printed so far, and either the
  exception that left the loop or the final \<open>validated_entries\<close>. An entry that is not a
  dictionary has no \<open>get\<close>. The line of a rejected entry is printed once its text is
  built: when the format of the confidence raises, nothing is printed.
\<close>

fun validate_loop :: "json list \<Rightarrow> out_line list \<Rightarrow> json list \<Rightarrow> out_line list \<times> (exn + json list)" where
  "validate_loop [] out validated_entries = (out, Inr validated_entries)"
| "validate_loop (entry # rest) out validated_entries =
     (case entry of
        JObj d \<Rightarrow>
          (let time_str = dict_get d ''time'' (JStr []);
               speaker = dict_get d ''speaker'' (JStr ''Unknown'');
               text = dict_get d ''text'' (JStr []);
               confidence = dict_get d ''confidence'' (JFloat (5 / 10))
           in case py_lt confidence float_0_7 of
                Inl e \<Rightarrow> (out, Inl e)
              | Inr True \<Rightarrow>
                  (case format_2f confidence of
                     Inl e \<Rightarrow> (out, Inl e)
                   | Inr u \<Rightarrow>
                       validate_loop rest
                         (out @ [FilteredLowConfidence confidence time_str speaker text])
                         validated_entries)
              | Inr False \<Rightarrow>
                  (case any_suspicious text suspicious_phrases of
                     Inl e \<Rightarrow> (out, Inl e)
                   | Inr True \<Rightarrow>
                       validate_loop rest (out @ [FilteredSuspicious time_str speaker text])
                         validated_entries
                   | Inr False \<Rightarrow> validate_loop rest out (validated_entries @ [entry])))
      | _ \<Rightarrow> (out, Inl AttributeError))"

text \<open>The line of lines 245 to 249 for a validated entry, which is a dictionary.\<close>

definition entry_line :: "json \<Rightarrow> out_line" where
  "entry_line entry =
     (let d = (case entry of JObj d \<Rightarrow> d | _ \<Rightarrow> [])
      in TranscriptLine (dict_get d ''time'' (JStr [])) (dict_get d ''speaker'' (JStr ''Unknown''))
           (dict_get d ''text'' (JStr [])) (dict_get d ''confidence'' (JStr ''N/A'')))"

text \<open>The sanity check of lines 233 to 237: the lines it prints.\<close>

definition length_check :: "json list \<Rightarrow> analysis \<Rightarrow> out_line list" where
  "length_check validated_entries audio_analysis =
     (if 0 < length validated_entries then
        (let expected_max_entries = max 1 (py_int (speech_duration audio_analysis / 2))
         in if expected_max_entries * 3 < int (length validated_entries)
            then [WarningTooLong, WarningExpected expected_max_entries (length validated_entries)]
            else [])
      else [])"

text \<open>
  \<open>_validate_and_print_transcript\<close>. The method returns nothing: its result is what it
  prints, paired with the exception it lets through, if any. \<open>json_loads\<close> is the
  library's parser, \<open>None\<close> standing for \<open>JSONDecodeError\<close>, the only exception the
  method catches.
\<close>

definition validate_and_print_transcript ::
    "(string \<Rightarrow> json option) \<Rightarrow> string \<Rightarrow> analysis \<Rightarrow> out_line list \<times> exn option" where
  "validate_and_print_transcript json_loads json_text audio_analysis =
     (case json_loads json_text of
        None \<Rightarrow> ([RawHeader, RawText json_text], None)
      | Some transcript \<Rightarrow>
          (if \<not> truthy transcript then ([TranscriptHeader, NoSpeechDetected], None)
           else case py_iter transcript of
                  Inl e \<Rightarrow> ([TranscriptHeader], Some e)
                | Inr entries \<Rightarrow>
                    (case validate_loop entries [TranscriptHeader] [] of
                       (out, Inl e) \<Rightarrow> (out, Some e)
                     | (out, Inr validated_entries) \<Rightarrow>
                         (let out2 = out @ length_check validated_entries audio_analysis
                          in if validated_entries = [] then (out2 @ [NoHighConfidence], None)
                             else (out2 @ map entry_line validated_entries, None)))))"

section \<open>The caller\<close>

text \<open>
  \<open>process\<close>, up to what it prints. \<open>read_file\<close> is the result of reading the audio file
  again (outside any \<open>try\<close>, so an exception there leaves \<open>process\<close>), \<open>response\<close> the
  result of the call of the transcription service, whose exceptions \<open>process\<close> prints, as
  it does those the validator lets through.
\<close>

datatype outcome =
    SkippedNoSpeech
  | Raised exn
  | ErrorPrinted "out_line list" exn
  | Completed "out_line list"

definition process ::
    "(real list \<Rightarrow> real) \<Rightarrow> processor \<Rightarrow> exn + wav_file \<Rightarrow> exn + string \<Rightarrow> exn + string
      \<Rightarrow> (string \<Rightarrow> json option) \<Rightarrow> outcome" where
  "process float32_rms self opened read_file response json_loads =
     (let audio_analysis = analyze_audio_content float32_rms self opened
      in if \<not> has_speech audio_analysis then SkippedNoSpeech
         else case read_file of
                Inl e \<Rightarrow> Raised e
              | Inr audio_data \<Rightarrow>
                  (case response of
                     Inl e \<Rightarrow> ErrorPrinted [] e
                   | Inr response_text \<Rightarrow>
                       (case validate_and_print_transcript json_loads response_text audio_analysis of
                          (out, Some e) \<Rightarrow> ErrorPrinted out e
                        | (out, None) \<Rightarrow> Completed out)))"

section \<open>The validator as the specification words it\<close>

text \<open>
  The specification describes the validator as a filter on the confidence of each entry.
  The definitions of this section follow its words, to be compared with the loop above.
  The confidence of an entry that is an object is its \<open>confidence\<close> member, and the
  default 0.5 when the member is absent.
\<close>

definition entry_confidence :: "json \<Rightarrow> json option" where
  "entry_confidence entry =
     (case entry of JObj d \<Rightarrow> Some (dict_get d ''confidence'' (JFloat (5 / 10))) | _ \<Rightarrow> None)"

text \<open>The numbers: ints, bools and floats, NaN and the infinities included.\<close>

fun is_number :: "json \<Rightarrow> bool" where
  "is_number (JInt n) = True"
| "is_number (JFloat x) = True"
| "is_number (JBool b) = True"
| "is_number JNaN = True"
| "is_number JPosInf = True"
| "is_number JNegInf = True"
| "is_number v = False"

text \<open>A number is below the threshold 0.7, the double: no NaN is, and of the bools
  \<open>false\<close> is.\<close>

fun below_threshold :: "json \<Rightarrow> bool" where
  "below_threshold (JInt n) = (real_of_int n < float_0_7)"
| "below_threshold (JFloat x) = (x < float_0_7)"
| "below_threshold (JBool b) = (\<not> b)"
| "below_threshold JNegInf = True"
| "below_threshold v = False"

text \<open>An int below the threshold that no double can hold: its rejection cannot be
  printed.\<close>

fun unprintable :: "json \<Rightarrow> bool" where
  "unprintable (JInt n) = (real_of_int n < float_0_7 \<and> \<not> int_fits_float n)"
| "unprintable v = False"

text \<open>The entry is an object whose confidence is a number that the validator can
  handle.\<close>

definition has_confidence :: "json \<Rightarrow> bool" where
  "has_confidence entry =
     (case entry_confidence entry of None \<Rightarrow> False | Some v \<Rightarrow> is_number v \<and> \<not> unprintable v)"

text \<open>Rejected as \<open>LowConfidence\<close>: the confidence is below the threshold.\<close>

definition low_confidence :: "json \<Rightarrow> bool" where
  "low_confidence entry =
     (case entry_confidence entry of None \<Rightarrow> False | Some v \<Rightarrow> below_threshold v)"

text \<open>The finite value of a number, and the finite confidence of an entry.\<close>

fun numeric_value :: "json \<Rightarrow> real option" where
  "numeric_value (JInt n) = Some (real_of_int n)"
| "numeric_value (JFloat x) = Some x"
| "numeric_value (JBool b) = Some (if b then 1 else 0)"
| "numeric_value v = None"

definition spec_confidence :: "json \<Rightarrow> real option" where
  "spec_confidence entry =
     (case entry of
        JObj d \<Rightarrow> (case map_of d ''confidence'' of None \<Rightarrow> Some (5 / 10) | Some v \<Rightarrow> numeric_value v)
      | _ \<Rightarrow> None)"

text \<open>The entry is an object with no \<open>confidence\<close> member.\<close>

definition omits_confidence :: "json \<Rightarrow> bool" where
  "omits_confidence entry = (case entry of JObj d \<Rightarrow> map_of d ''confidence'' = None | _ \<Rightarrow> False)"

text \<open>The line that reports a rejected entry.\<close>

definition rejection_line :: "json \<Rightarrow> out_line" where
  "rejection_line entry =
     (let d = (case entry of JObj d \<Rightarrow> d | _ \<Rightarrow> [])
      in FilteredLowConfidence (dict_get d ''confidence'' (JFloat (5 / 10)))
           (dict_get d ''time'' (JStr [])) (dict_get d ''speaker'' (JStr ''Unknown''))
           (dict_get d ''text'' (JStr [])))"

section \<open>Arithmetic of the model\<close>

lemma py_int_tenth: "0 \<le> sr \<Longrightarrow> py_int (real_of_int sr / 10) = sr div 10"
proof -
  assume "0 \<le> sr"
  have "\<lfloor>real_of_int sr / real_of_int 10\<rfloor> = sr div 10"
    by (rule floor_divide_of_int_eq)
  with \<open>0 \<le> sr\<close> show ?thesis by (simp add: py_int_def)
qed

lemma sqrt_gt_iff: "0 \<le> t \<Longrightarrow> (t < sqrt m) = (t\<^sup>2 < m)"
  using real_sqrt_less_iff [of "t\<^sup>2" m] by simp

lemma exact_rms_gt_iff:
  "0 \<le> t \<Longrightarrow> (t < exact_rms xs) = (t\<^sup>2 < sum_list (map (\<lambda>x. x\<^sup>2) xs) / real (length xs))"
  by (simp add: exact_rms_def sqrt_gt_iff)

lemma exact_rms_replicate: "0 < n \<Longrightarrow> exact_rms (replicate n a) = \<bar>a\<bar>"
  by (simp add: exact_rms_def sum_list_replicate)

lemma range_up_length:
  "0 < step \<Longrightarrow> length (range_up i stop step) = nat ((stop - i + step - 1) div step)"
proof (induction i stop step rule: range_up.induct)
  case (1 i stop step)
  show ?case
  proof (cases "i < stop")
    case True
    have "stop - i + step - 1 = step + (stop - (i + step) + step - 1)" by simp
    then have "(stop - i + step - 1) div step = (stop - (i + step) + step - 1) div step + 1"
      using 1(2) by (metis div_add_self1 less_irrefl)
    moreover have "0 \<le> (stop - (i + step) + step - 1) div step"
      using True 1(2) by (simp add: pos_imp_zdiv_nonneg_iff)
    ultimately show ?thesis
      using True 1 by (subst range_up.simps) (simp add: nat_add_distrib)
  next
    case False
    then have "stop - i + step - 1 < step" by simp
    then have "(stop - i + step - 1) div step \<le> 0"
      using 1(2) by (metis div_nonpos_pos_le0 leI less_le_not_le zdiv_eq_0_iff)
    with False show ?thesis
      by (subst range_up.simps) simp
  qed
qed

lemma range_up_bounds:
  "0 < step \<Longrightarrow> x \<in> set (range_up i stop step) \<Longrightarrow> i \<le> x \<and> x < stop"
proof (induction i stop step rule: range_up.induct)
  case (1 i stop step)
  have unf: "range_up i stop step = (if i < stop then i # range_up (i + step) stop step else [])"
    using 1(2) by (subst range_up.simps) simp
  show ?case
  proof (cases "i < stop")
    case True
    with 1(3) unf have "x = i \<or> x \<in> set (range_up (i + step) stop step)" by simp
    then show ?thesis using 1(1) [OF _ 1(2)] True 1(2) by auto
  next
    case False
    with 1(3) unf show ?thesis by simp
  qed
qed

lemma count_speech_le: "count_speech float32_rms self audio ws idxs k \<le> k + length idxs"
proof (induction idxs arbitrary: k)
  case Nil
  show ?case by simp
next
  case (Cons i rest)
  show ?case using Cons [of "k + 1"] Cons [of k] by simp
qed

lemma py_slice_replicate:
  assumes "0 \<le> i" "0 < ws" "i + ws \<le> int n"
  shows "py_slice (replicate n a) i (i + ws) = replicate (nat ws) a"
proof -
  have lo: "slice_index n i = nat i"
    using assms by (simp add: slice_index_def)
  have hi: "slice_index n (i + ws) = nat (i + ws)"
    using assms by (simp add: slice_index_def)
  have le: "nat (i + ws) \<le> n" using assms by simp
  have d: "nat (i + ws) - nat i = nat ws" using assms by simp
  show ?thesis
    unfolding py_slice_def length_replicate lo hi
    using le d by (simp add: min_absorb1)
qed

lemma window_active_replicate:
  assumes "0 \<le> i" "0 < ws" "i + ws \<le> int n"
    and "silence_threshold self < float32_rms (replicate (nat ws) a)"
  shows "np_gt (np_rms float32_rms (py_slice (replicate n a) i (i + ws))) (silence_threshold self)"
proof -
  have ne: "replicate (nat ws) a \<noteq> []" using assms(2) by simp
  have "np_rms float32_rms (py_slice (replicate n a) i (i + ws))
      = Some (float32_rms (replicate (nat ws) a))"
    unfolding py_slice_replicate [OF assms(1-3)] np_rms_def using ne by simp
  then show ?thesis using assms(4) unfolding np_gt_def by simp
qed

lemma count_speech_replicate:
  assumes "0 < ws" "silence_threshold self < float32_rms (replicate (nat ws) a)"
    and "\<forall>i \<in> set idxs. 0 \<le> i \<and> i + ws \<le> int n"
  shows "count_speech float32_rms self (replicate n a) ws idxs k = k + length idxs"
  using assms(3)
proof (induction idxs arbitrary: k)
  case Nil
  show ?case by simp
next
  case (Cons i rest)
  then have i: "0 \<le> i" "i + ws \<le> int n" by simp_all
  have "np_gt (np_rms float32_rms (py_slice (replicate n a) i (i + ws))) (silence_threshold self)"
    using i(1) assms(1) i(2) assms(2) by (rule window_active_replicate)
  then show ?case using Cons by simp
qed

lemma analyze_body_constant:
  assumes "nchannels wav \<noteq> 2" "10 \<le> framerate wav" "w = framerate wav div 10"
    and "normalize (sampwidth wav) (raw wav) = replicate n a"
    and "silence_threshold self < float32_rms (replicate (nat w) a)"
  shows "analyze_body float32_rms self wav = Inr
     \<lparr>duration = real n / real_of_int (framerate wav),
      rms_energy = np_rms float32_rms (replicate n a),
      speech_duration = real (nat ((int n - 1) div w)) / 10,
      has_speech = (min_speech_duration self \<le> real (nat ((int n - 1) div w)) / 10
                    \<and> np_gt (np_rms float32_rms (replicate n a)) (silence_threshold self)),
      silence_ratio = (if 0 < real n / real_of_int (framerate wav)
                       then 1 - (real (nat ((int n - 1) div w)) / 10)
                                / (real n / real_of_int (framerate wav))
                       else 1)\<rparr>"
proof -
  have w: "0 < w" using assms(2,3) by simp
  have ws: "py_int (real_of_int (framerate wav) / 10) = w"
    using assms(2) unfolding assms(3) by (simp add: py_int_tenth)
  have len: "length (range_up 0 (int n - w) w) = nat ((int n - 1) div w)"
    using w by (simp add: range_up_length)
  have "\<forall>i \<in> set (range_up 0 (int n - w) w). 0 \<le> i \<and> i + w \<le> int n"
    using range_up_bounds [of w _ 0 "int n - w"] w by fastforce
  then have cnt: "count_speech float32_rms self (replicate n a) w (range_up 0 (int n - w) w) 0
      = nat ((int n - 1) div w)"
    using count_speech_replicate [where float32_rms = float32_rms and self = self and a = a
        and ws = w and n = n and k = 0 and idxs = "range_up 0 (int n - w) w", OF w assms(5)]
      len by simp
  have f: "framerate wav \<noteq> 0" using assms(2) by simp
  have tr: "py_truediv (int n) (framerate wav) = Inr (real n / real_of_int (framerate wav))"
    using f unfolding py_truediv_def by simp
  have rg: "py_range 0 (int n - w) w = Inr (range_up 0 (int n - w) w)"
    using w unfolding py_range_def by simp
  show ?thesis
    by (simp add: analyze_body_def Let_def assms(1) assms(4) ws tr rg cnt)
qed

section \<open>The detector: has_speech and the fallback\<close>

text \<open>Three samples of amplitude 1/2 at 10 frames a second: no float32 operation rounds
  on them, so numpy's root mean square is the exact one.\<close>

lemma analyze_three_tone:
  "analyze_body exact_rms new_processor
     \<lparr>framerate = 10, nchannels = 1, sampwidth = 2, raw = [16384, 16384, 16384]\<rparr>
   = Inr \<lparr>duration = 3 / 10, rms_energy = Some (1 / 2), speech_duration = 2 / 10,
           has_speech = True, silence_ratio = 1 / 3\<rparr>"
  apply (simp add: analyze_body_def normalize_def new_processor_def Let_def py_truediv_def
      py_int_def py_range_def range_up.simps np_gt_def np_rms_def exact_rms_gt_iff py_slice_def
      slice_index_def power2_eq_square)
  apply (simp add: exact_rms_def power2_eq_square real_sqrt_divide)
  done

text \<open>
  C2: whenever the body of \<open>analyze_audio_content\<close> completes, the \<open>has_speech\<close> it
  returns is the conjunction of \<open>speech_duration >= min_speech_duration\<close> and
  \<open>rms_energy > silence_threshold\<close> of the same result.
\<close>

theorem has_speech_derived:
  assumes "analyze_body float32_rms self wav = Inr a"
  shows "has_speech a =
    (min_speech_duration self \<le> speech_duration a \<and> np_gt (rms_energy a) (silence_threshold self))"
  using assms
  by (auto simp: analyze_body_def Let_def split: sum.splits if_splits)

theorem has_speech_derived_witness:
  "analyze_body exact_rms new_processor
     \<lparr>framerate = 10, nchannels = 1, sampwidth = 2, raw = [16384, 16384, 16384]\<rparr>
   = Inr \<lparr>duration = 3 / 10, rms_energy = Some (1 / 2), speech_duration = 2 / 10,
           has_speech = True, silence_ratio = 1 / 3\<rparr>
   \<and> has_speech \<lparr>duration = 3 / 10, rms_energy = Some (1 / 2), speech_duration = 2 / 10,
        has_speech = True, silence_ratio = 1 / 3\<rparr> =
    (min_speech_duration new_processor
       \<le> speech_duration \<lparr>duration = 3 / 10, rms_energy = Some (1 / 2), speech_duration = 2 / 10,
             has_speech = True, silence_ratio = 1 / 3\<rparr>
     \<and> np_gt (rms_energy \<lparr>duration = 3 / 10, rms_energy = Some (1 / 2), speech_duration = 2 / 10,
             has_speech = True, silence_ratio = 1 / 3\<rparr>) (silence_threshold new_processor))"
  by (rule conjI [OF analyze_three_tone has_speech_derived [OF analyze_three_tone]])

text \<open>
  C4: when opening or reading the wave file raises, \<open>analyze_audio_content\<close> returns the
  fallback dictionary, whose \<open>has_speech\<close> is true, and \<open>process\<close> does not take the
  no-speech exit.
\<close>

theorem decode_failure_fails_open:
  "analyze_audio_content float32_rms self (Inl e) = fallback
   \<and> has_speech (analyze_audio_content float32_rms self (Inl e))
   \<and> process float32_rms self (Inl e) read_file response json_loads \<noteq> SkippedNoSpeech"
  by (simp add: analyze_audio_content_def fallback_def process_def Let_def
      split: sum.splits prod.splits option.splits)

section \<open>The window scan on constant audio\<close>

lemma inexact_multiple_div:
  assumes "0 < w" and "int n mod w \<noteq> 0"
  shows "(int n - 1) div w = int n div w"
proof -
  have r: "0 < int n mod w" "int n mod w < w"
    using assms pos_mod_sign [of w "int n"] pos_mod_bound [of w "int n"] by linarith+
  have e: "int n - 1 = (int n div w) * w + (int n mod w - 1)"
    by (simp add: algebra_simps)
  have "(int n - 1) div w = ((int n div w) * w + (int n mod w - 1)) div w"
    by (simp only: e [symmetric])
  also have "\<dots> = int n div w + (int n mod w - 1) div w"
    using assms(1) by simp
  also have "\<dots> = int n div w"
    using r by (simp add: div_pos_pos_trivial)
  finally show ?thesis .
qed

text \<open>
  C1: take audio of constant amplitude \<open>a\<close> at a frame rate of at least 10, with the
  window of \<open>w = int(0.1 * sample_rate)\<close> samples, whose sample count \<open>n\<close> is not a multiple
  of \<open>w\<close>, and such that the float32 RMS of a full window is within a relative error
  \<open>eps\<close> of \<open>a\<close>, with the silence threshold, the 0.005 of the constructor, below
  \<open>(1 - eps) * a\<close>. Then the loop visits
  every full window, each is active, and only the final partial window is left out:
  \<open>speech_duration\<close> is a tenth of \<open>floor(n / w)\<close>. When the frame rate is \<open>10 * w\<close>, so
  that a window lasts a tenth of a second, that is \<open>floor(duration / 0.1) * 0.1\<close>.
\<close>

theorem full_windows_counted:
  assumes "nchannels wav \<noteq> 2" and "10 \<le> framerate wav" and "w = framerate wav div 10"
    and "normalize (sampwidth wav) (raw wav) = replicate n a"
    and "int n mod w \<noteq> 0"
    and "\<bar>float32_rms (replicate (nat w) a) - a\<bar> \<le> eps * a"
    and "silence_threshold self < (1 - eps) * a"
    and "silence_threshold self = 5 / 1000"
  shows "speech_duration (analyze_audio_content float32_rms self (Inr wav))
      = real_of_int (int n div w) / 10
    \<and> duration (analyze_audio_content float32_rms self (Inr wav))
      = real n / real_of_int (framerate wav)
    \<and> (framerate wav = 10 * w \<longrightarrow>
        speech_duration (analyze_audio_content float32_rms self (Inr wav))
        = real_of_int \<lfloor>duration (analyze_audio_content float32_rms self (Inr wav)) / (1 / 10)\<rfloor>
          * (1 / 10))"
proof -
  have w: "0 < w" using assms(2,3) by simp
  have "a - eps * a \<le> float32_rms (replicate (nat w) a)" using assms(6) by linarith
  moreover have "(1 - eps) * a = a - eps * a" by (simp add: algebra_simps)
  ultimately have thr: "silence_threshold self < float32_rms (replicate (nat w) a)"
    using assms(7) by linarith
  have "0 \<le> int n div w" using w by (simp add: pos_imp_zdiv_nonneg_iff)
  then have d: "real (nat ((int n - 1) div w)) = real_of_int (int n div w)"
    using inexact_multiple_div [OF w assms(5)] by simp
  note body = analyze_body_constant [where float32_rms = float32_rms and self = self
      and wav = wav and w = w and n = n and a = a, OF assms(1-4) thr, unfolded d]
  have sd: "speech_duration (analyze_audio_content float32_rms self (Inr wav))
      = real_of_int (int n div w) / 10"
    unfolding analyze_audio_content_def by (simp add: body)
  have du: "duration (analyze_audio_content float32_rms self (Inr wav))
      = real n / real_of_int (framerate wav)"
    unfolding analyze_audio_content_def by (simp add: body)
  have fl: "real_of_int (int n div w) / 10
      = real_of_int \<lfloor>real n / real_of_int (framerate wav) / (1 / 10)\<rfloor> * (1 / 10)"
    if f: "framerate wav = 10 * w"
  proof -
    have "real n / real_of_int (framerate wav) / (1 / 10) = real_of_int (int n) / real_of_int w"
      unfolding f using w by simp
    then have "\<lfloor>real n / real_of_int (framerate wav) / (1 / 10)\<rfloor> = int n div w"
      by (simp only: floor_divide_of_int_eq)
    then show ?thesis by simp
  qed
  show ?thesis unfolding sd du using fl by simp
qed

theorem full_windows_counted_witness:
  "speech_duration (analyze_audio_content exact_rms new_processor
      (Inr \<lparr>framerate = 16000, nchannels = 1, sampwidth = 2, raw = replicate 3300 16384\<rparr>))
     = 2 / 10
   \<and> duration (analyze_audio_content exact_rms new_processor
      (Inr \<lparr>framerate = 16000, nchannels = 1, sampwidth = 2, raw = replicate 3300 16384\<rparr>))
     = 3300 / 16000
   \<and> speech_duration (analyze_audio_content exact_rms new_processor
      (Inr \<lparr>framerate = 16000, nchannels = 1, sampwidth = 2, raw = replicate 3300 16384\<rparr>))
     = real_of_int \<lfloor>duration (analyze_audio_content exact_rms new_processor
         (Inr \<lparr>framerate = 16000, nchannels = 1, sampwidth = 2, raw = replicate 3300 16384\<rparr>))
         / (1 / 10)\<rfloor> * (1 / 10)"
  using full_windows_counted [where
      wav = "\<lparr>framerate = 16000, nchannels = 1, sampwidth = 2, raw = replicate 3300 16384\<rparr>"
      and w = 1600 and n = 3300 and a = "1 / 2" and self = new_processor
      and float32_rms = exact_rms and eps = "1 / 1000"]
  by (simp add: normalize_def new_processor_def exact_rms_replicate)

text \<open>At 25 frames a second a window is \<open>int(2.5) = 2\<close> samples, counted as a tenth of a
  second: seven loud samples last 0.28 s, and \<open>floor(0.28 / 0.1) * 0.1\<close> is 0.2, but the
  three full windows the loop visits give 0.3 s of speech. No float32 operation rounds on
  these amplitudes.\<close>

theorem window_shorter_than_tenth_counterexample:
  "analyze_body exact_rms new_processor
     \<lparr>framerate = 25, nchannels = 1, sampwidth = 2,
        raw = [16384, 16384, 16384, 16384, 16384, 16384, 16384]\<rparr>
   = Inr \<lparr>duration = 7 / 25, rms_energy = Some (1 / 2), speech_duration = 3 / 10,
           has_speech = True, silence_ratio = - (1 / 14)\<rparr>
   \<and> real_of_int \<lfloor>(7 / 25 :: real) / (1 / 10)\<rfloor> * (1 / 10) = 2 / 10"
proof -
  have b: "analyze_body exact_rms new_processor
     \<lparr>framerate = 25, nchannels = 1, sampwidth = 2,
        raw = [16384, 16384, 16384, 16384, 16384, 16384, 16384]\<rparr>
   = Inr \<lparr>duration = 7 / 25, rms_energy = Some (1 / 2), speech_duration = 3 / 10,
           has_speech = True, silence_ratio = - (1 / 14)\<rparr>"
    apply (simp add: analyze_body_def normalize_def new_processor_def Let_def py_truediv_def
        py_int_def py_range_def range_up.simps np_gt_def np_rms_def exact_rms_gt_iff
        py_slice_def slice_index_def power2_eq_square)
    apply (simp add: exact_rms_def power2_eq_square real_sqrt_divide)
    done
  have "\<lfloor>(7 / 25 :: real) / (1 / 10)\<rfloor> = 2" by (simp add: floor_eq_iff)
  then show ?thesis using b by simp
qed

lemma exact_multiple_div: "0 < w \<Longrightarrow> 0 < k \<Longrightarrow> (int (k * nat w) - 1) div w = int k - 1"
proof -
  assume w: "0 < w" and k: "0 < k"
  have e: "int (k * nat w) - 1 = (int k - 1) * w + (w - 1)"
    using w by (simp add: algebra_simps)
  have "(int (k * nat w) - 1) div w = ((int k - 1) * w + (w - 1)) div w"
    by (simp only: e)
  also have "\<dots> = (int k - 1) + (w - 1) div w"
    using w by simp
  also have "\<dots> = int k - 1"
    using w by (simp add: div_pos_pos_trivial)
  finally show ?thesis .
qed

text \<open>
  The stop of the range is one window short when the samples fill the windows exactly.
  On audio of constant amplitude whose window RMS is above the silence threshold, at a
  frame rate of \<open>10 * w\<close> (a window is \<open>w\<close> samples) and of exactly \<open>k\<close> full windows, the
  duration is \<open>k / 10\<close> seconds, and \<open>floor(duration / 0.1) * 0.1\<close> is \<open>k / 10\<close>, but the loop
  over \<open>range(0, len(audio_data) - window_size, window_size)\<close> visits \<open>k - 1\<close> windows only:
  \<open>speech_duration\<close> is \<open>(k - 1) / 10\<close>. The last full window is never analysed.
\<close>

theorem exact_windows_lose_the_last:
  assumes "nchannels wav \<noteq> 2" and "framerate wav = 10 * w" and "0 < w"
    and "normalize (sampwidth wav) (raw wav) = replicate (k * nat w) a"
    and "0 < k" and "silence_threshold self < float32_rms (replicate (nat w) a)"
    and "silence_threshold self = 5 / 1000"
  shows "duration (analyze_audio_content float32_rms self (Inr wav)) = real k / 10
    \<and> speech_duration (analyze_audio_content float32_rms self (Inr wav)) = real (k - 1) / 10
    \<and> real_of_int \<lfloor>duration (analyze_audio_content float32_rms self (Inr wav)) / (1 / 10)\<rfloor>
        * (1 / 10) = real k / 10"
proof -
  have r: "10 \<le> framerate wav" and wd: "w = framerate wav div 10"
    using assms(2,3) by simp_all
  have d: "nat ((int (k * nat w) - 1) div w) = k - 1"
    using exact_multiple_div [OF assms(3) assms(5)] by simp
  have dur: "real (k * nat w) / real_of_int (framerate wav) = real k / 10"
    unfolding assms(2) using assms(3) by simp
  note body = analyze_body_constant [where float32_rms = float32_rms and self = self
      and wav = wav and w = w and n = "k * nat w" and a = a,
      OF assms(1) r wd assms(4) assms(6), unfolded d dur]
  have fl: "\<lfloor>real k / 10 / (1 / 10)\<rfloor> = int k" by simp
  show ?thesis
    unfolding analyze_audio_content_def by (simp add: body fl)
qed

theorem exact_windows_lose_the_last_witness:
  "duration (analyze_audio_content exact_rms new_processor
      (Inr \<lparr>framerate = 16000, nchannels = 1, sampwidth = 2, raw = replicate 3200 16384\<rparr>))
     = 2 / 10
   \<and> speech_duration (analyze_audio_content exact_rms new_processor
      (Inr \<lparr>framerate = 16000, nchannels = 1, sampwidth = 2, raw = replicate 3200 16384\<rparr>))
     = 1 / 10
   \<and> real_of_int \<lfloor>duration (analyze_audio_content exact_rms new_processor
      (Inr \<lparr>framerate = 16000, nchannels = 1, sampwidth = 2, raw = replicate 3200 16384\<rparr>))
        / (1 / 10)\<rfloor> * (1 / 10) = 2 / 10"
  using exact_windows_lose_the_last [where
      wav = "\<lparr>framerate = 16000, nchannels = 1, sampwidth = 2, raw = replicate 3200 16384\<rparr>"
      and w = 1600 and k = 2 and a = "1 / 2" and self = new_processor
      and float32_rms = exact_rms]
  by (simp add: normalize_def new_processor_def exact_rms_replicate)

section \<open>The silence ratio\<close>

lemma analyze_body_InrD:
  assumes "analyze_body float32_rms self wav = Inr a"
  shows "\<exists>audio idxs.
          framerate wav \<noteq> 0
          \<and> py_range 0 (int (length audio) - py_int (real_of_int (framerate wav) / 10))
                (py_int (real_of_int (framerate wav) / 10)) = Inr idxs
          \<and> duration a = real (length audio) / real_of_int (framerate wav)
          \<and> speech_duration a
              = real (count_speech float32_rms self audio (py_int (real_of_int (framerate wav) / 10)) idxs 0) / 10
          \<and> silence_ratio a
              = (if 0 < duration a then 1 - speech_duration a / duration a else 1)"
proof -
  obtain m where m: "(if nchannels wav = 2 then reshape2_mean (raw wav) else Inr (raw wav)) = Inr m"
    using assms by (cases "if nchannels wav = 2 then reshape2_mean (raw wav) else Inr (raw wav)")
      (simp_all add: analyze_body_def)
  define audio where "audio = normalize (sampwidth wav) m"
  define ws where "ws = py_int (real_of_int (framerate wav) / 10)"
  have b1: "analyze_body float32_rms self wav =
      (case py_truediv (int (length audio)) (framerate wav) of
         Inl e \<Rightarrow> Inl e
       | Inr dur \<Rightarrow>
           (case py_range 0 (int (length audio) - ws) ws of
              Inl e \<Rightarrow> Inl e
            | Inr idxs \<Rightarrow>
                Inr \<lparr>duration = dur, rms_energy = np_rms float32_rms audio,
                  speech_duration = real (count_speech float32_rms self audio ws idxs 0) / 10,
                  has_speech = (min_speech_duration self \<le> real (count_speech float32_rms self audio ws idxs 0) / 10
                     \<and> np_gt (np_rms float32_rms audio) (silence_threshold self)),
                  silence_ratio = (if 0 < dur
                     then 1 - real (count_speech float32_rms self audio ws idxs 0) / 10 / dur else 1)\<rparr>))"
    unfolding analyze_body_def m audio_def ws_def by (simp add: Let_def split: sum.splits)
  have f: "framerate wav \<noteq> 0"
    using assms unfolding b1 py_truediv_def by (auto split: if_splits)
  then have tr: "py_truediv (int (length audio)) (framerate wav)
      = Inr (real (length audio) / real_of_int (framerate wav))"
    by (simp add: py_truediv_def)
  obtain idxs where idxs: "py_range 0 (int (length audio) - ws) ws = Inr idxs"
    using assms unfolding b1 tr by (cases "py_range 0 (int (length audio) - ws) ws") simp_all
  have a: "a = \<lparr>duration = real (length audio) / real_of_int (framerate wav),
      rms_energy = np_rms float32_rms audio,
      speech_duration = real (count_speech float32_rms self audio ws idxs 0) / 10,
      has_speech = (min_speech_duration self \<le> real (count_speech float32_rms self audio ws idxs 0) / 10
         \<and> np_gt (np_rms float32_rms audio) (silence_threshold self)),
      silence_ratio = (if 0 < real (length audio) / real_of_int (framerate wav)
         then 1 - real (count_speech float32_rms self audio ws idxs 0) / 10
                  / (real (length audio) / real_of_int (framerate wav)) else 1)\<rparr>"
    using assms unfolding b1 tr idxs by simp
  show ?thesis
    apply (rule exI [of _ audio])
    apply (rule exI [of _ idxs])
    using f idxs unfolding ws_def [symmetric] a by simp
qed

lemma window_count_fits:
  assumes "0 < w" "0 < n" "c \<le> nat ((int n - 1) div w)"
  shows "real c * real_of_int w \<le> real n"
proof -
  have "0 \<le> (int n - 1) div w"
    using assms(1,2) by (simp add: pos_imp_zdiv_nonneg_iff)
  then have "int c \<le> (int n - 1) div w" using assms(3) by simp
  then have "int c * w \<le> ((int n - 1) div w) * w"
    using assms(1) by (simp add: mult_right_mono)
  moreover have "(int n - 1) div w * w + (int n - 1) mod w = int n - 1" by simp
  moreover have "0 \<le> (int n - 1) mod w" using assms(1) by simp
  ultimately have "int c * w \<le> int n" by linarith
  then have "real_of_int (int c * w) \<le> real_of_int (int n)" by (simp only: of_int_le_iff)
  then show ?thesis by simp
qed

text \<open>
  C5: whenever the body of \<open>analyze_audio_content\<close> completes, \<open>silence_ratio\<close> is
  \<open>1 - speech_duration / duration\<close> if the duration is positive and 1 otherwise, and it is
  at most 1. It is at least 0 when the frame rate is a positive multiple of 10, so that a
  window of \<open>int(0.1 * sample_rate)\<close> samples lasts the tenth of a second it is counted as.
\<close>

theorem silence_ratio_formula:
  assumes "analyze_body float32_rms self wav = Inr a"
  shows "silence_ratio a = (if 0 < duration a then 1 - speech_duration a / duration a else 1)
    \<and> silence_ratio a \<le> 1
    \<and> (0 < framerate wav \<and> framerate wav mod 10 = 0 \<longrightarrow> 0 \<le> silence_ratio a)"
proof -
  define ws where "ws = py_int (real_of_int (framerate wav) / 10)"
  obtain audio idxs where
    rg: "py_range 0 (int (length audio) - ws) ws = Inr idxs" and
    d: "duration a = real (length audio) / real_of_int (framerate wav)" and
    sd: "speech_duration a = real (count_speech float32_rms self audio ws idxs 0) / 10" and
    sr: "silence_ratio a = (if 0 < duration a then 1 - speech_duration a / duration a else 1)"
    using analyze_body_InrD [OF assms] unfolding ws_def by blast
  have nonneg: "0 \<le> speech_duration a" unfolding sd by simp
  have upper: "silence_ratio a \<le> 1"
    unfolding sr using nonneg by simp
  have lower: "0 \<le> silence_ratio a" if rate: "0 < framerate wav" "framerate wav mod 10 = 0"
  proof (cases "0 < duration a")
    case False
    then show ?thesis unfolding sr by simp
  next
    case True
    define w where "w = framerate wav div 10"
    have fw: "framerate wav = 10 * w" using rate(2) unfolding w_def by presburger
    have w: "0 < w" using rate(1) fw by simp
    have "ws = w" unfolding ws_def w_def using rate(1) by (simp add: py_int_tenth)
    then have idxs: "idxs = range_up 0 (int (length audio) - w) w"
      using rg w by (simp add: py_range_def)
    have n: "0 < length audio" using True unfolding d by (cases "length audio") simp_all
    have "count_speech float32_rms self audio ws idxs 0 \<le> length idxs"
      using count_speech_le [of float32_rms self audio ws idxs 0] by simp
    also have "length idxs = nat ((int (length audio) - 1) div w)"
      unfolding idxs using w by (simp add: range_up_length)
    finally have "real (count_speech float32_rms self audio ws idxs 0) * real_of_int w \<le> real (length audio)"
      by (rule window_count_fits [OF w n])
    then have "speech_duration a \<le> duration a"
      unfolding sd d fw using w by (simp add: field_simps)
    then show ?thesis unfolding sr using True by simp
  qed
  show ?thesis
  proof (intro conjI impI)
    show "silence_ratio a = (if 0 < duration a then 1 - speech_duration a / duration a else 1)"
      by (rule sr)
    show "silence_ratio a \<le> 1" by (rule upper)
    assume "0 < framerate wav \<and> framerate wav mod 10 = 0"
    then show "0 \<le> silence_ratio a" by (simp add: lower)
  qed
qed

theorem silence_ratio_formula_witness:
  "analyze_body exact_rms new_processor
     \<lparr>framerate = 10, nchannels = 1, sampwidth = 2, raw = [16384, 16384, 16384]\<rparr>
   = Inr \<lparr>duration = 3 / 10, rms_energy = Some (1 / 2), speech_duration = 2 / 10,
           has_speech = True, silence_ratio = 1 / 3\<rparr>
   \<and> (0::int) < 10 \<and> (10::int) mod 10 = 0
   \<and> silence_ratio \<lparr>duration = 3 / 10, rms_energy = Some (1 / 2), speech_duration = 2 / 10,
           has_speech = True, silence_ratio = 1 / 3\<rparr> = 1 - (2 / 10) / (3 / 10)
   \<and> silence_ratio \<lparr>duration = 3 / 10, rms_energy = Some (1 / 2), speech_duration = 2 / 10,
           has_speech = True, silence_ratio = 1 / 3\<rparr> \<le> 1
   \<and> 0 \<le> silence_ratio \<lparr>duration = 3 / 10, rms_energy = Some (1 / 2), speech_duration = 2 / 10,
           has_speech = True, silence_ratio = 1 / 3\<rparr>"
  using silence_ratio_formula [OF analyze_three_tone] analyze_three_tone by simp

text \<open>At 15 frames a second a window is one sample, counted as a tenth of a second: four
  loud samples last 4/15 s and are given 0.3 s of speech, and a negative silence ratio.\<close>

theorem silence_ratio_negative_counterexample:
  "analyze_body exact_rms new_processor
     \<lparr>framerate = 15, nchannels = 1, sampwidth = 2, raw = [16384, 16384, 16384, 16384]\<rparr>
   = Inr \<lparr>duration = 4 / 15, rms_energy = Some (1 / 2), speech_duration = 3 / 10,
           has_speech = True, silence_ratio = - (1 / 8)\<rparr>
   \<and> silence_ratio (analyze_audio_content exact_rms new_processor
        (Inr \<lparr>framerate = 15, nchannels = 1, sampwidth = 2,
               raw = [16384, 16384, 16384, 16384]\<rparr>)) < 0"
proof -
  have b: "analyze_body exact_rms new_processor
     \<lparr>framerate = 15, nchannels = 1, sampwidth = 2, raw = [16384, 16384, 16384, 16384]\<rparr>
   = Inr \<lparr>duration = 4 / 15, rms_energy = Some (1 / 2), speech_duration = 3 / 10,
           has_speech = True, silence_ratio = - (1 / 8)\<rparr>"
    apply (simp add: analyze_body_def normalize_def new_processor_def Let_def py_truediv_def
        py_int_def py_range_def range_up.simps np_gt_def np_rms_def exact_rms_gt_iff py_slice_def slice_index_def
        power2_eq_square)
    apply (simp add: exact_rms_def power2_eq_square real_sqrt_divide)
    done
  show ?thesis using b by (simp add: analyze_audio_content_def)
qed


lemma length_normalize: "length (normalize sw xs) = length xs"
  by (simp add: normalize_def)

lemma py_int_small_rate: "- 10 < sr \<Longrightarrow> sr < 10 \<Longrightarrow> py_int (real_of_int sr / 10) = 0"
proof (cases "0 \<le> sr")
  case True
  assume "sr < 10"
  with True show ?thesis by (simp add: py_int_tenth)
next
  case False
  assume "- 10 < sr"
  with False have "\<lceil>real_of_int sr / 10\<rceil> = 0"
    by (simp add: ceiling_eq_iff)
  with False show ?thesis by (simp add: py_int_def)
qed

lemma analyze_body_small_rate:
  assumes "- 10 < framerate wav" "framerate wav < 10"
  shows "\<exists>e. analyze_body float32_rms self wav = Inl e"
proof -
  have ws: "py_int (real_of_int (framerate wav) / 10) = 0"
    using assms by (rule py_int_small_rate)
  show ?thesis
    by (simp add: analyze_body_def Let_def ws py_range_def py_truediv_def split: sum.splits)
qed

lemma analyze_body_ok:
  assumes "10 \<le> framerate wav" "nchannels wav \<noteq> 2"
  shows "analyze_body float32_rms self wav = Inr (analyze_audio_content float32_rms self (Inr wav))
    \<and> duration (analyze_audio_content float32_rms self (Inr wav))
        = real (length (raw wav)) / real_of_int (framerate wav)
    \<and> rms_energy (analyze_audio_content float32_rms self (Inr wav))
        = np_rms float32_rms (normalize (sampwidth wav) (raw wav))"
proof -
  have "1 \<le> framerate wav div 10" using assms(1) by simp
  then have ws: "0 < py_int (real_of_int (framerate wav) / 10)"
    using assms(1) by (simp add: py_int_tenth)
  have f: "framerate wav \<noteq> 0" using assms(1) by simp
  show ?thesis
    using ws
    by (simp add: analyze_body_def analyze_audio_content_def Let_def py_range_def
        py_truediv_def f assms(2) length_normalize)
qed

section \<open>The exceptions of the detector\<close>

text \<open>
  C10: for a decoded mono file with a frame rate of at least 10, the body of
  \<open>analyze_audio_content\<close> raises nothing: the analysis returned is the one the body
  computed from the samples, with the duration \<open>len / rate\<close> and the RMS energy of the
  normalised samples.
\<close>

theorem normal_path_from_ten_hertz:
  assumes "10 \<le> framerate wav" and "nchannels wav = 1"
  shows "analyze_body float32_rms self wav = Inr (analyze_audio_content float32_rms self (Inr wav))
    \<and> duration (analyze_audio_content float32_rms self (Inr wav))
        = real (length (raw wav)) / real_of_int (framerate wav)
    \<and> rms_energy (analyze_audio_content float32_rms self (Inr wav))
        = np_rms float32_rms (normalize (sampwidth wav) (raw wav))"
proof -
  have "nchannels wav \<noteq> 2" using assms(2) by simp
  with assms(1) show ?thesis by (rule analyze_body_ok)
qed

theorem normal_path_from_ten_hertz_witness:
  "(10::int) \<le> 10
   \<and> analyze_body exact_rms new_processor
        \<lparr>framerate = 10, nchannels = 1, sampwidth = 2, raw = [16384, 16384, 16384]\<rparr>
      = Inr (analyze_audio_content exact_rms new_processor
          (Inr \<lparr>framerate = 10, nchannels = 1, sampwidth = 2, raw = [16384, 16384, 16384]\<rparr>))
   \<and> duration (analyze_audio_content exact_rms new_processor
          (Inr \<lparr>framerate = 10, nchannels = 1, sampwidth = 2, raw = [16384, 16384, 16384]\<rparr>))
      = 3 / 10"
  using normal_path_from_ten_hertz [where
      wav = "\<lparr>framerate = 10, nchannels = 1, sampwidth = 2, raw = [16384, 16384, 16384]\<rparr>"
      and self = new_processor and float32_rms = exact_rms]
  by simp

text \<open>At 8 frames a second \<open>int(0.1 * 8)\<close> is 0, \<open>range\<close> refuses the zero step, and the
  fallback dictionary is returned for a decodable, non-empty mono file.\<close>

theorem low_rate_takes_fallback_counterexample:
  "analyze_body exact_rms new_processor \<lparr>framerate = 8, nchannels = 1, sampwidth = 2, raw = [16384]\<rparr>
     = Inl ValueError
   \<and> analyze_audio_content exact_rms new_processor
        (Inr \<lparr>framerate = 8, nchannels = 1, sampwidth = 2, raw = [16384]\<rparr>) = fallback"
  by (simp add: analyze_audio_content_def analyze_body_def normalize_def Let_def py_truediv_def
      py_int_def py_range_def)

text \<open>
  C3: with a frame rate above -10 and not above 0 the body of \<open>analyze_audio_content\<close>
  raises (the division by zero at rate 0, the zero step of \<open>range\<close> otherwise); the
  exception is caught, the fallback dictionary with \<open>has_speech\<close> true is returned, and
  \<open>process\<close> does not take the no-speech exit. An empty sample sequence at a rate of at
  least 10 raises nothing: the analysis has duration 0, a NaN energy, no speech and
  \<open>has_speech\<close> false, and \<open>process\<close> takes the no-speech exit.
\<close>

theorem bad_rate_fails_open:
  "(- 10 < framerate wav \<and> framerate wav \<le> 0 \<longrightarrow>
      (\<exists>e. analyze_body float32_rms self wav = Inl e)
      \<and> analyze_audio_content float32_rms self (Inr wav) = fallback
      \<and> has_speech (analyze_audio_content float32_rms self (Inr wav))
      \<and> process float32_rms self (Inr wav) read_file response json_loads \<noteq> SkippedNoSpeech)
   \<and> (raw wav = [] \<and> 10 \<le> framerate wav \<longrightarrow>
      analyze_body float32_rms self wav = Inr \<lparr>duration = 0, rms_energy = None, speech_duration = 0,
         has_speech = False, silence_ratio = 1\<rparr>
      \<and> process float32_rms self (Inr wav) read_file response json_loads = SkippedNoSpeech)"
proof (intro conjI impI)
  assume r: "- 10 < framerate wav \<and> framerate wav \<le> 0"
  then obtain e where e: "analyze_body float32_rms self wav = Inl e"
    using analyze_body_small_rate [where wav = wav and self = self
        and float32_rms = float32_rms] by auto
  then show "\<exists>e. analyze_body float32_rms self wav = Inl e" by blast
  show fb: "analyze_audio_content float32_rms self (Inr wav) = fallback"
    by (simp add: analyze_audio_content_def e)
  show "has_speech (analyze_audio_content float32_rms self (Inr wav))"
    by (simp add: fb fallback_def)
  show "process float32_rms self (Inr wav) read_file response json_loads \<noteq> SkippedNoSpeech"
    by (simp add: process_def fb fallback_def Let_def split: sum.splits prod.splits option.splits)
next
  assume r: "raw wav = [] \<and> 10 \<le> framerate wav"
  then have r1: "raw wav = []" and r2: "10 \<le> framerate wav" by blast+
  have "1 \<le> framerate wav div 10" using r2 by simp
  then have ws: "0 < py_int (real_of_int (framerate wav) / 10)"
    using r2 by (simp add: py_int_tenth)
  have up: "range_up 0 (- py_int (real_of_int (framerate wav) / 10))
      (py_int (real_of_int (framerate wav) / 10)) = []"
    using ws by (subst range_up.simps) simp
  show b: "analyze_body float32_rms self wav = Inr \<lparr>duration = 0, rms_energy = None, speech_duration = 0,
         has_speech = False, silence_ratio = 1\<rparr>"
    using r2 ws
    by (simp add: r1 analyze_body_def Let_def reshape2_mean_def normalize_def py_truediv_def
        py_range_def up np_rms_def np_gt_def)
  show "process float32_rms self (Inr wav) read_file response json_loads = SkippedNoSpeech"
    by (simp add: process_def analyze_audio_content_def b Let_def)
qed

theorem bad_rate_fails_open_witness:
  "analyze_audio_content exact_rms new_processor
     (Inr \<lparr>framerate = 0, nchannels = 1, sampwidth = 2, raw = [16384]\<rparr>) = fallback
   \<and> process exact_rms new_processor (Inr \<lparr>framerate = 0, nchannels = 1, sampwidth = 2, raw = [16384]\<rparr>)
       (Inr ''RIFF'') (Inl ApiError) (\<lambda>s. None) = ErrorPrinted [] ApiError
   \<and> analyze_body exact_rms new_processor \<lparr>framerate = 16000, nchannels = 1, sampwidth = 2, raw = []\<rparr>
       = Inr \<lparr>duration = 0, rms_energy = None, speech_duration = 0, has_speech = False,
               silence_ratio = 1\<rparr>
   \<and> process exact_rms new_processor (Inr \<lparr>framerate = 16000, nchannels = 1, sampwidth = 2, raw = []\<rparr>)
       (Inr ''RIFF'') (Inl ApiError) (\<lambda>s. None) = SkippedNoSpeech"
  using bad_rate_fails_open [where wav = "\<lparr>framerate = 0, nchannels = 1, sampwidth = 2, raw = [16384]\<rparr>"
      and self = new_processor and float32_rms = exact_rms
      and read_file = "Inr ''RIFF''" and response = "Inl ApiError"
      and json_loads = "\<lambda>s. None"]
    bad_rate_fails_open [where wav = "\<lparr>framerate = 16000, nchannels = 1, sampwidth = 2, raw = []\<rparr>"
      and self = new_processor and float32_rms = exact_rms
      and read_file = "Inr ''RIFF''" and response = "Inl ApiError"
      and json_loads = "\<lambda>s. None"]
  by (simp add: process_def fallback_def Let_def)

text \<open>At rate 0 the division for the duration raises; the call still returns, with
  \<open>has_speech\<close> true. On an empty sample sequence nothing is raised at all.\<close>

theorem zero_rate_not_fatal_counterexample:
  "analyze_body exact_rms new_processor \<lparr>framerate = 0, nchannels = 1, sampwidth = 2, raw = [16384]\<rparr>
     = Inl ZeroDivisionError
   \<and> analyze_audio_content exact_rms new_processor
        (Inr \<lparr>framerate = 0, nchannels = 1, sampwidth = 2, raw = [16384]\<rparr>) = fallback
   \<and> has_speech (analyze_audio_content exact_rms new_processor
        (Inr \<lparr>framerate = 0, nchannels = 1, sampwidth = 2, raw = [16384]\<rparr>))
   \<and> analyze_audio_content exact_rms new_processor
        (Inr \<lparr>framerate = 16000, nchannels = 1, sampwidth = 2, raw = []\<rparr>)
       = \<lparr>duration = 0, rms_energy = None, speech_duration = 0, has_speech = False,
           silence_ratio = 1\<rparr>"
  by (simp add: analyze_audio_content_def analyze_body_def normalize_def Let_def py_truediv_def
      py_int_def py_range_def fallback_def range_up.simps np_rms_def
      np_gt_def new_processor_def)


section \<open>The validation loop\<close>

lemma py_lt_number: "is_number v \<Longrightarrow> py_lt v float_0_7 = Inr (below_threshold v)"
  by (cases v) (simp_all add: float_0_7_def)

lemma py_lt_not_number: "\<not> is_number v \<Longrightarrow> py_lt v t = Inl TypeError"
  by (cases v) simp_all

lemma format_2f_printable: "is_number v \<Longrightarrow> \<not> unprintable v \<Longrightarrow> below_threshold v \<Longrightarrow> format_2f v = Inr ()"
  by (cases v) simp_all

lemma unprintable_raises:
  "unprintable v \<Longrightarrow> py_lt v float_0_7 = Inr True \<and> format_2f v = Inl OverflowError"
  by (cases v) simp_all

lemma validate_loop_step:
  assumes "has_confidence entry"
  shows "validate_loop (entry # rest) out validated =
    (if low_confidence entry then validate_loop rest (out @ [rejection_line entry]) validated
     else validate_loop rest out (validated @ [entry]))"
proof -
  obtain d where d: "entry = JObj d"
    using assms by (cases entry) (simp_all add: has_confidence_def entry_confidence_def)
  define v where "v = dict_get d ''confidence'' (JFloat (5 / 10))"
  have ec: "entry_confidence entry = Some v"
    unfolding d v_def by (simp add: entry_confidence_def)
  have num: "is_number v" and pr: "\<not> unprintable v"
    using assms unfolding has_confidence_def ec by simp_all
  have lt: "py_lt v float_0_7 = Inr (below_threshold v)"
    using num by (rule py_lt_number)
  have low: "low_confidence (JObj d) = below_threshold v"
    using ec unfolding d by (simp add: low_confidence_def)
  have step: "validate_loop (JObj d # rest) out validated =
      (case py_lt v float_0_7 of
         Inl e \<Rightarrow> (out, Inl e)
       | Inr True \<Rightarrow>
           (case format_2f v of
              Inl e \<Rightarrow> (out, Inl e)
            | Inr u \<Rightarrow> validate_loop rest (out @ [rejection_line (JObj d)]) validated)
       | Inr False \<Rightarrow> validate_loop rest out (validated @ [JObj d]))"
    unfolding v_def
    by (simp add: Let_def suspicious_phrases_def rejection_line_def
        split: sum.splits bool.splits)
  show ?thesis
  proof (cases "below_threshold v")
    case True
    then have "format_2f v = Inr ()" using num pr by (simp add: format_2f_printable)
    then show ?thesis unfolding d low step lt using True by simp
  next
    case False
    then show ?thesis unfolding d low step lt by simp
  qed
qed

lemma validate_loop_prefix:
  assumes "\<forall>e \<in> set pre. has_confidence e"
  shows "validate_loop (pre @ rest) out validated =
    validate_loop rest (out @ map rejection_line (filter low_confidence pre))
      (validated @ filter (\<lambda>e. \<not> low_confidence e) pre)"
  using assms
proof (induction pre arbitrary: out validated)
  case Nil
  show ?case by simp
next
  case (Cons e pre)
  then have e: "has_confidence e" and pre: "\<forall>x \<in> set pre. has_confidence x" by simp_all
  show ?case
  proof (cases "low_confidence e")
    case True
    then show ?thesis
      using validate_loop_step [OF e, of "pre @ rest" out validated] Cons.IH [OF pre] by simp
  next
    case False
    then show ?thesis
      using validate_loop_step [OF e, of "pre @ rest" out validated] Cons.IH [OF pre] by simp
  qed
qed

lemma validate_loop_type_error:
  assumes "entry_confidence (JObj d) = Some v" and "\<not> is_number v"
  shows "validate_loop (JObj d # rest) out validated = (out, Inl TypeError)"
proof -
  have v: "dict_get d ''confidence'' (JFloat (5 / 10)) = v"
    using assms(1) by (simp add: entry_confidence_def)
  have "py_lt v float_0_7 = Inl TypeError"
    using assms(2) by (rule py_lt_not_number)
  then show ?thesis using v by (simp add: Let_def)
qed

lemma validate_loop_overflow:
  assumes "entry_confidence (JObj d) = Some v" and "unprintable v"
  shows "validate_loop (JObj d # rest) out validated = (out, Inl OverflowError)"
proof -
  have v: "dict_get d ''confidence'' (JFloat (5 / 10)) = v"
    using assms(1) by (simp add: entry_confidence_def)
  have "py_lt v float_0_7 = Inr True" and "format_2f v = Inl OverflowError"
    using unprintable_raises [OF assms(2)] by simp_all
  then show ?thesis using v by (simp add: Let_def)
qed

lemma max_py_int_floor: "max 1 (py_int x) = max 1 \<lfloor>x\<rfloor>"
proof (cases "0 \<le> x")
  case True
  then show ?thesis by (simp add: py_int_def)
next
  case False
  then have "\<lceil>x\<rceil> \<le> 0" and "\<lfloor>x\<rfloor> \<le> 0" by (simp_all add: ceiling_le_zero floor_le_zero le_floor_iff)
  with False show ?thesis by (simp add: py_int_def)
qed

section \<open>The sanity check of the transcript length\<close>

lemma validate_completed:
  assumes "json_loads json_text = Some transcript" and "truthy transcript"
    and "py_iter transcript = Inr entries"
    and "validate_loop entries [TranscriptHeader] [] = (out, Inr validated)"
  shows "validate_and_print_transcript json_loads json_text a =
    (out @ length_check validated a
       @ (if validated = [] then [NoHighConfidence] else map entry_line validated), None)"
  by (simp add: validate_and_print_transcript_def assms Let_def)

lemma validate_raised:
  assumes "json_loads json_text = Some transcript" and "truthy transcript"
    and "py_iter transcript = Inr entries"
    and "validate_loop entries [TranscriptHeader] [] = (out, Inl e)"
  shows "validate_and_print_transcript json_loads json_text a = (out, Some e)"
  by (simp add: validate_and_print_transcript_def assms Let_def)

lemma length_check_eq:
  "length_check validated a =
    (if max 1 \<lfloor>speech_duration a / 2\<rfloor> * 3 < int (length validated)
     then [WarningTooLong,
           WarningExpected (max 1 \<lfloor>speech_duration a / 2\<rfloor>) (length validated)]
     else [])"
proof (cases "validated = []")
  case True
  then show ?thesis by (simp add: length_check_def)
next
  case False
  then show ?thesis
    by (simp add: length_check_def Let_def max_py_int_floor)
qed

text \<open>
  C8: when the loop completes with the list \<open>validated\<close>, the sanity check prints its
  warning exactly when \<open>len(validated)\<close> exceeds three times
  \<open>max(1, floor(speech_duration / 2))\<close>, and with or without the warning the method then
  prints the line of every entry of \<open>validated\<close>, in order: the warning removes nothing.
\<close>

theorem sanity_warning:
  assumes "json_loads json_text = Some transcript" and "truthy transcript"
    and "py_iter transcript = Inr entries"
    and "validate_loop entries [TranscriptHeader] [] = (out, Inr validated)"
  shows "validate_and_print_transcript json_loads json_text a =
      (out @ length_check validated a
         @ (if validated = [] then [NoHighConfidence] else map entry_line validated), None)
    \<and> length_check validated a =
      (if max 1 \<lfloor>speech_duration a / 2\<rfloor> * 3 < int (length validated)
       then [WarningTooLong,
             WarningExpected (max 1 \<lfloor>speech_duration a / 2\<rfloor>) (length validated)]
       else [])"
proof
  show "validate_and_print_transcript json_loads json_text a =
      (out @ length_check validated a
         @ (if validated = [] then [NoHighConfidence] else map entry_line validated), None)"
    using assms by (rule validate_completed)
  show "length_check validated a =
      (if max 1 \<lfloor>speech_duration a / 2\<rfloor> * 3 < int (length validated)
       then [WarningTooLong,
             WarningExpected (max 1 \<lfloor>speech_duration a / 2\<rfloor>) (length validated)]
       else [])"
    by (rule length_check_eq)
qed


text \<open>Four entries at confidence 0.9375, a double.\<close>

lemma four_entries_validated:
  "validate_loop [JObj [(''text'', JStr ''a''), (''confidence'', JFloat (15 / 16))],
      JObj [(''text'', JStr ''a''), (''confidence'', JFloat (15 / 16))],
      JObj [(''text'', JStr ''a''), (''confidence'', JFloat (15 / 16))],
      JObj [(''text'', JStr ''a''), (''confidence'', JFloat (15 / 16))]] [TranscriptHeader] [] = ([TranscriptHeader], Inr [JObj [(''text'', JStr ''a''), (''confidence'', JFloat (15 / 16))],
      JObj [(''text'', JStr ''a''), (''confidence'', JFloat (15 / 16))],
      JObj [(''text'', JStr ''a''), (''confidence'', JFloat (15 / 16))],
      JObj [(''text'', JStr ''a''), (''confidence'', JFloat (15 / 16))]])"
  by (simp add: dict_get_def suspicious_phrases_def Let_def float_0_7_def)

theorem sanity_warning_witness:
  "validate_and_print_transcript (\<lambda>s. Some (JArr [JObj [(''text'', JStr ''a''), (''confidence'', JFloat (15 / 16))],
      JObj [(''text'', JStr ''a''), (''confidence'', JFloat (15 / 16))],
      JObj [(''text'', JStr ''a''), (''confidence'', JFloat (15 / 16))],
      JObj [(''text'', JStr ''a''), (''confidence'', JFloat (15 / 16))]])) ''t''
     \<lparr>duration = 1, rms_energy = Some (1 / 2), speech_duration = 3 / 10, has_speech = True, silence_ratio = 7 / 10\<rparr>
   = ([TranscriptHeader, WarningTooLong, WarningExpected 1 4, TranscriptLine (JStr []) (JStr ''Unknown'') (JStr ''a'') (JFloat (15 / 16)),
      TranscriptLine (JStr []) (JStr ''Unknown'') (JStr ''a'') (JFloat (15 / 16)),
      TranscriptLine (JStr []) (JStr ''Unknown'') (JStr ''a'') (JFloat (15 / 16)),
      TranscriptLine (JStr []) (JStr ''Unknown'') (JStr ''a'') (JFloat (15 / 16))], None)
   \<and> length_check [JObj [(''text'', JStr ''a''), (''confidence'', JFloat (15 / 16))],
      JObj [(''text'', JStr ''a''), (''confidence'', JFloat (15 / 16))],
      JObj [(''text'', JStr ''a''), (''confidence'', JFloat (15 / 16))],
      JObj [(''text'', JStr ''a''), (''confidence'', JFloat (15 / 16))]]
     \<lparr>duration = 1, rms_energy = Some (1 / 2), speech_duration = 3 / 10, has_speech = True, silence_ratio = 7 / 10\<rparr>
   = [WarningTooLong, WarningExpected 1 4]"
proof -
  have h1: "(\<lambda>s. Some (JArr [JObj [(''text'', JStr ''a''), (''confidence'', JFloat (15 / 16))],
      JObj [(''text'', JStr ''a''), (''confidence'', JFloat (15 / 16))],
      JObj [(''text'', JStr ''a''), (''confidence'', JFloat (15 / 16))],
      JObj [(''text'', JStr ''a''), (''confidence'', JFloat (15 / 16))]])) ''t'' = Some (JArr [JObj [(''text'', JStr ''a''), (''confidence'', JFloat (15 / 16))],
      JObj [(''text'', JStr ''a''), (''confidence'', JFloat (15 / 16))],
      JObj [(''text'', JStr ''a''), (''confidence'', JFloat (15 / 16))],
      JObj [(''text'', JStr ''a''), (''confidence'', JFloat (15 / 16))]])"
    by simp
  have h2: "truthy (JArr [JObj [(''text'', JStr ''a''), (''confidence'', JFloat (15 / 16))],
      JObj [(''text'', JStr ''a''), (''confidence'', JFloat (15 / 16))],
      JObj [(''text'', JStr ''a''), (''confidence'', JFloat (15 / 16))],
      JObj [(''text'', JStr ''a''), (''confidence'', JFloat (15 / 16))]])" by simp
  have h3: "py_iter (JArr [JObj [(''text'', JStr ''a''), (''confidence'', JFloat (15 / 16))],
      JObj [(''text'', JStr ''a''), (''confidence'', JFloat (15 / 16))],
      JObj [(''text'', JStr ''a''), (''confidence'', JFloat (15 / 16))],
      JObj [(''text'', JStr ''a''), (''confidence'', JFloat (15 / 16))]]) = Inr [JObj [(''text'', JStr ''a''), (''confidence'', JFloat (15 / 16))],
      JObj [(''text'', JStr ''a''), (''confidence'', JFloat (15 / 16))],
      JObj [(''text'', JStr ''a''), (''confidence'', JFloat (15 / 16))],
      JObj [(''text'', JStr ''a''), (''confidence'', JFloat (15 / 16))]]" by simp
  note w = sanity_warning [where json_loads = "\<lambda>s. Some (JArr [JObj [(''text'', JStr ''a''), (''confidence'', JFloat (15 / 16))],
      JObj [(''text'', JStr ''a''), (''confidence'', JFloat (15 / 16))],
      JObj [(''text'', JStr ''a''), (''confidence'', JFloat (15 / 16))],
      JObj [(''text'', JStr ''a''), (''confidence'', JFloat (15 / 16))]])"
      and json_text = "''t''" and a = "\<lparr>duration = 1, rms_energy = Some (1 / 2), speech_duration = 3 / 10, has_speech = True, silence_ratio = 7 / 10\<rparr>", OF h1 h2 h3 four_entries_validated]
  have lc: "length_check [JObj [(''text'', JStr ''a''), (''confidence'', JFloat (15 / 16))],
      JObj [(''text'', JStr ''a''), (''confidence'', JFloat (15 / 16))],
      JObj [(''text'', JStr ''a''), (''confidence'', JFloat (15 / 16))],
      JObj [(''text'', JStr ''a''), (''confidence'', JFloat (15 / 16))]] \<lparr>duration = 1, rms_energy = Some (1 / 2), speech_duration = 3 / 10, has_speech = True, silence_ratio = 7 / 10\<rparr> = [WarningTooLong, WarningExpected 1 4]"
    using w by simp
  show ?thesis
    using w unfolding lc by (simp add: entry_line_def dict_get_def)
qed


section \<open>Parse failure and the empty array\<close>

text \<open>
  C7: when \<open>json.loads\<close> raises \<open>JSONDecodeError\<close> the method prints the parse-failure header
  and the raw text, unchanged, and no transcript line; when the text parses to the empty
  array it prints the transcript header and "No speech detected.", with no rejection and
  no warning. The two outputs differ.
\<close>

theorem parse_failure_is_not_empty_array:
  "(json_loads json_text = None \<longrightarrow>
      validate_and_print_transcript json_loads json_text a = ([RawHeader, RawText json_text], None))
   \<and> (json_loads json_text = Some (JArr []) \<longrightarrow>
      validate_and_print_transcript json_loads json_text a
        = ([TranscriptHeader, NoSpeechDetected], None))
   \<and> ([RawHeader, RawText json_text], None :: exn option)
       \<noteq> ([TranscriptHeader, NoSpeechDetected], None)"
  by (simp add: validate_and_print_transcript_def)

theorem parse_failure_is_not_empty_array_witness:
  "validate_and_print_transcript (\<lambda>s. if s = ''[]'' then Some (JArr []) else None)
      ''{not json'' fallback = ([RawHeader, RawText ''{not json''], None)
   \<and> validate_and_print_transcript (\<lambda>s. if s = ''[]'' then Some (JArr []) else None)
      ''[]'' fallback = ([TranscriptHeader, NoSpeechDetected], None)"
  using parse_failure_is_not_empty_array [where
      json_loads = "\<lambda>s. if s = ''[]'' then Some (JArr []) else None"
      and json_text = "''{not json''" and a = fallback]
    parse_failure_is_not_empty_array [where
      json_loads = "\<lambda>s. if s = ''[]'' then Some (JArr []) else None"
      and json_text = "''[]''" and a = fallback]
  by simp


section \<open>The confidence filter\<close>

lemma validate_loop_numeric:
  assumes "\<forall>e \<in> set entries. has_confidence e"
  shows "validate_loop entries out validated =
    (out @ map rejection_line (filter low_confidence entries),
     Inr (validated @ filter (\<lambda>e. \<not> low_confidence e) entries))"
  using validate_loop_prefix [OF assms, of "[]" out validated] by simp

lemma omits_confidence_low:
  assumes "omits_confidence e"
  shows "has_confidence e \<and> low_confidence e \<and> spec_confidence e = Some (5 / 10)"
  using assms
  by (cases e) (simp_all add: omits_confidence_def has_confidence_def low_confidence_def
      spec_confidence_def entry_confidence_def dict_get_def float_0_7_def)

text \<open>
  C6: the confidence of an entry is its \<open>confidence\<close> member, and 0.5 when the member is
  absent. When every entry of a non-empty array has a number there (an int below the
  threshold being one that a double can hold), the method rejects, with a low-confidence
  line, the entries whose confidence is below the double 0.7, and keeps the others, in
  order: an entry at the double 0.7 is kept, and so is a NaN. When the confidence of an
  entry is not a number, the comparison raises \<open>TypeError\<close>; when it is an int below the
  threshold too large for a double, the format of the rejection line raises
  \<open>OverflowError\<close>; either way the method stops there, after the rejection lines of the
  entries before it.
\<close>

theorem confidence_filter:
  "(json_loads json_text = Some (JArr entries) \<and> entries \<noteq> []
      \<and> (\<forall>e \<in> set entries. has_confidence e) \<longrightarrow>
      validate_and_print_transcript json_loads json_text a =
        ([TranscriptHeader] @ map rejection_line (filter low_confidence entries)
           @ length_check (filter (\<lambda>e. \<not> low_confidence e) entries) a
           @ (if filter (\<lambda>e. \<not> low_confidence e) entries = [] then [NoHighConfidence]
              else map entry_line (filter (\<lambda>e. \<not> low_confidence e) entries)),
         None))
   \<and> (json_loads json_text = Some (JArr (pre @ JObj d # post))
      \<and> (\<forall>e \<in> set pre. has_confidence e)
      \<and> entry_confidence (JObj d) = Some v \<and> \<not> is_number v \<longrightarrow>
      validate_and_print_transcript json_loads json_text a =
        ([TranscriptHeader] @ map rejection_line (filter low_confidence pre), Some TypeError))
   \<and> (json_loads json_text = Some (JArr (pre @ JObj d # post))
      \<and> (\<forall>e \<in> set pre. has_confidence e)
      \<and> entry_confidence (JObj d) = Some v \<and> unprintable v \<longrightarrow>
      validate_and_print_transcript json_loads json_text a =
        ([TranscriptHeader] @ map rejection_line (filter low_confidence pre),
         Some OverflowError))"
proof (intro conjI impI)
  assume h: "json_loads json_text = Some (JArr entries) \<and> entries \<noteq> []
      \<and> (\<forall>e \<in> set entries. has_confidence e)"
  then have l: "json_loads json_text = Some (JArr entries)" and ne: "truthy (JArr entries)"
    and num: "\<forall>e \<in> set entries. has_confidence e" by simp_all
  have it: "py_iter (JArr entries) = Inr entries" by simp
  have loop: "validate_loop entries [TranscriptHeader] [] =
      ([TranscriptHeader] @ map rejection_line (filter low_confidence entries),
       Inr (filter (\<lambda>e. \<not> low_confidence e) entries))"
    using validate_loop_numeric [OF num, of "[TranscriptHeader]" "[]"] by simp
  show "validate_and_print_transcript json_loads json_text a =
        ([TranscriptHeader] @ map rejection_line (filter low_confidence entries)
           @ length_check (filter (\<lambda>e. \<not> low_confidence e) entries) a
           @ (if filter (\<lambda>e. \<not> low_confidence e) entries = [] then [NoHighConfidence]
              else map entry_line (filter (\<lambda>e. \<not> low_confidence e) entries)),
         None)"
    using validate_completed [where json_loads = json_loads and json_text = json_text,
        OF l ne it loop, of a] by simp
next
  assume h: "json_loads json_text = Some (JArr (pre @ JObj d # post))
      \<and> (\<forall>e \<in> set pre. has_confidence e)
      \<and> entry_confidence (JObj d) = Some v \<and> \<not> is_number v"
  then have l: "json_loads json_text = Some (JArr (pre @ JObj d # post))"
    and num: "\<forall>e \<in> set pre. has_confidence e"
    and ec: "entry_confidence (JObj d) = Some v" and bad: "\<not> is_number v"
    by simp_all
  have ne: "truthy (JArr (pre @ JObj d # post))" by simp
  have it: "py_iter (JArr (pre @ JObj d # post)) = Inr (pre @ JObj d # post)" by simp
  have loop: "validate_loop (pre @ JObj d # post) [TranscriptHeader] [] =
      ([TranscriptHeader] @ map rejection_line (filter low_confidence pre), Inl TypeError)"
    using validate_loop_prefix [OF num, of "JObj d # post" "[TranscriptHeader]" "[]"]
      validate_loop_type_error [OF ec bad] by simp
  show "validate_and_print_transcript json_loads json_text a =
        ([TranscriptHeader] @ map rejection_line (filter low_confidence pre), Some TypeError)"
    using l ne it loop by (rule validate_raised)
next
  assume h: "json_loads json_text = Some (JArr (pre @ JObj d # post))
      \<and> (\<forall>e \<in> set pre. has_confidence e)
      \<and> entry_confidence (JObj d) = Some v \<and> unprintable v"
  then have l: "json_loads json_text = Some (JArr (pre @ JObj d # post))"
    and num: "\<forall>e \<in> set pre. has_confidence e"
    and ec: "entry_confidence (JObj d) = Some v" and bad: "unprintable v"
    by simp_all
  have ne: "truthy (JArr (pre @ JObj d # post))" by simp
  have it: "py_iter (JArr (pre @ JObj d # post)) = Inr (pre @ JObj d # post)" by simp
  have loop: "validate_loop (pre @ JObj d # post) [TranscriptHeader] [] =
      ([TranscriptHeader] @ map rejection_line (filter low_confidence pre), Inl OverflowError)"
    using validate_loop_prefix [OF num, of "JObj d # post" "[TranscriptHeader]" "[]"]
      validate_loop_overflow [OF ec bad] by simp
  show "validate_and_print_transcript json_loads json_text a =
        ([TranscriptHeader] @ map rejection_line (filter low_confidence pre),
         Some OverflowError)"
    using l ne it loop by (rule validate_raised)
qed

text \<open>The entries of the witness: one at the double 0.69, which is
  \<open>1553741871442821 / 2^51\<close>, one at the double 0.7, one without the member; then one at
  the string "high"; then one at the int \<open>- 2^1024\<close>.\<close>

lemma big_int_unprintable: "unprintable (JInt (- (2 ^ 1024)))"
proof -
  have "real_of_int (- (2 ^ 1024)) < 0" by simp
  moreover have "0 < float_0_7" by (simp add: float_0_7_def)
  ultimately have "real_of_int (- (2 ^ 1024)) < float_0_7" by linarith
  moreover have "\<not> int_fits_float (- (2 ^ 1024))" by (simp add: int_fits_float_def)
  ultimately show ?thesis by simp
qed

theorem confidence_filter_witness:
  "validate_and_print_transcript
     (\<lambda>s. Some (JArr [JObj [(''text'', JStr ''a''), (''confidence'', JFloat (1553741871442821 / 2251799813685248))],
        JObj [(''text'', JStr ''b''), (''confidence'', JFloat float_0_7)],
        JObj [(''text'', JStr ''c'')]])) ''t'' fallback
   = ([TranscriptHeader,
       FilteredLowConfidence (JFloat (1553741871442821 / 2251799813685248)) (JStr []) (JStr ''Unknown'')
         (JStr ''a''),
       FilteredLowConfidence (JFloat (5 / 10)) (JStr []) (JStr ''Unknown'') (JStr ''c''),
       TranscriptLine (JStr []) (JStr ''Unknown'') (JStr ''b'') (JFloat float_0_7)], None)
   \<and> validate_and_print_transcript
     (\<lambda>s. Some (JArr ([JObj [(''text'', JStr ''a''), (''confidence'', JFloat (1553741871442821 / 2251799813685248))]]
        @ JObj [(''text'', JStr ''d''), (''confidence'', JStr ''high'')] # []))) ''t'' fallback
   = ([TranscriptHeader,
       FilteredLowConfidence (JFloat (1553741871442821 / 2251799813685248)) (JStr []) (JStr ''Unknown'')
         (JStr ''a'')],
      Some TypeError)
   \<and> validate_and_print_transcript
     (\<lambda>s. Some (JArr ([JObj [(''text'', JStr ''a''), (''confidence'', JFloat (1553741871442821 / 2251799813685248))]]
        @ JObj [(''text'', JStr ''e''), (''confidence'', JInt (- (2 ^ 1024)))] # []))) ''t'' fallback
   = ([TranscriptHeader,
       FilteredLowConfidence (JFloat (1553741871442821 / 2251799813685248)) (JStr []) (JStr ''Unknown'')
         (JStr ''a'')],
      Some OverflowError)"
proof -
  have e: "entry_confidence (JObj [(''text'', JStr ''e''), (''confidence'', JInt (- (2 ^ 1024)))])
      = Some (JInt (- (2 ^ 1024)))"
    by (simp add: entry_confidence_def dict_get_def)
  note big = conjI [OF e big_int_unprintable]
  have c1: "validate_and_print_transcript
     (\<lambda>s. Some (JArr [JObj [(''text'', JStr ''a''), (''confidence'', JFloat (1553741871442821 / 2251799813685248))],
        JObj [(''text'', JStr ''b''), (''confidence'', JFloat float_0_7)],
        JObj [(''text'', JStr ''c'')]])) ''t'' fallback
   = ([TranscriptHeader,
       FilteredLowConfidence (JFloat (1553741871442821 / 2251799813685248)) (JStr []) (JStr ''Unknown'')
         (JStr ''a''),
       FilteredLowConfidence (JFloat (5 / 10)) (JStr []) (JStr ''Unknown'') (JStr ''c''),
       TranscriptLine (JStr []) (JStr ''Unknown'') (JStr ''b'') (JFloat float_0_7)], None)"
    using confidence_filter [where
      json_loads = "\<lambda>s. Some (JArr [JObj [(''text'', JStr ''a''), (''confidence'', JFloat (1553741871442821 / 2251799813685248))],
        JObj [(''text'', JStr ''b''), (''confidence'', JFloat float_0_7)],
        JObj [(''text'', JStr ''c'')]])"
      and json_text = "''t''" and a = fallback
      and entries = "[JObj [(''text'', JStr ''a''), (''confidence'', JFloat (1553741871442821 / 2251799813685248))],
        JObj [(''text'', JStr ''b''), (''confidence'', JFloat float_0_7)],
        JObj [(''text'', JStr ''c'')]]"
      and pre = "[]" and d = "[]" and post = "[]" and v = JNull]
    by (simp add: has_confidence_def low_confidence_def entry_confidence_def rejection_line_def
      entry_line_def dict_get_def length_check_def fallback_def py_int_def Let_def
      float_0_7_def)
  have c2: "validate_and_print_transcript
     (\<lambda>s. Some (JArr ([JObj [(''text'', JStr ''a''), (''confidence'', JFloat (1553741871442821 / 2251799813685248))]]
        @ JObj [(''text'', JStr ''d''), (''confidence'', JStr ''high'')] # []))) ''t'' fallback
   = ([TranscriptHeader,
       FilteredLowConfidence (JFloat (1553741871442821 / 2251799813685248)) (JStr []) (JStr ''Unknown'')
         (JStr ''a'')],
      Some TypeError)"
    using confidence_filter [where
      json_loads = "\<lambda>s. Some (JArr ([JObj [(''text'', JStr ''a''), (''confidence'', JFloat (1553741871442821 / 2251799813685248))]]
        @ JObj [(''text'', JStr ''d''), (''confidence'', JStr ''high'')] # []))"
      and json_text = "''t''" and a = fallback
      and entries = "[]"
      and pre = "[JObj [(''text'', JStr ''a''), (''confidence'', JFloat (1553741871442821 / 2251799813685248))]]"
      and d = "[(''text'', JStr ''d''), (''confidence'', JStr ''high'')]" and post = "[]" and v = "JStr ''high''"]
    by (simp add: has_confidence_def low_confidence_def entry_confidence_def rejection_line_def
      dict_get_def Let_def float_0_7_def)
  have c3: "validate_and_print_transcript
     (\<lambda>s. Some (JArr ([JObj [(''text'', JStr ''a''), (''confidence'', JFloat (1553741871442821 / 2251799813685248))]]
        @ JObj [(''text'', JStr ''e''), (''confidence'', JInt (- (2 ^ 1024)))] # []))) ''t'' fallback
   = ([TranscriptHeader,
       FilteredLowConfidence (JFloat (1553741871442821 / 2251799813685248)) (JStr []) (JStr ''Unknown'')
         (JStr ''a'')],
      Some OverflowError)"
  proof -
    have pre_ok: "\<forall>e \<in> set [JObj [(''text'', JStr ''a''), (''confidence'', JFloat (1553741871442821 / 2251799813685248))]]. has_confidence e"
      by (simp add: has_confidence_def entry_confidence_def dict_get_def)
    have l: "(\<lambda>s. Some (JArr ([JObj [(''text'', JStr ''a''), (''confidence'', JFloat (1553741871442821 / 2251799813685248))]]
        @ JObj [(''text'', JStr ''e''), (''confidence'', JInt (- (2 ^ 1024)))] # []))) ''t''
      = Some (JArr ([JObj [(''text'', JStr ''a''), (''confidence'', JFloat (1553741871442821 / 2251799813685248))]]
        @ JObj [(''text'', JStr ''e''), (''confidence'', JInt (- (2 ^ 1024)))] # []))"
      by simp
    note th = confidence_filter [where
      json_loads = "\<lambda>s. Some (JArr ([JObj [(''text'', JStr ''a''), (''confidence'', JFloat (1553741871442821 / 2251799813685248))]]
        @ JObj [(''text'', JStr ''e''), (''confidence'', JInt (- (2 ^ 1024)))] # []))"
      and json_text = "''t''" and a = fallback
      and entries = "[]"
      and pre = "[JObj [(''text'', JStr ''a''), (''confidence'', JFloat (1553741871442821 / 2251799813685248))]]"
      and d = "[(''text'', JStr ''e''), (''confidence'', JInt (- (2 ^ 1024)))]" and post = "[]" and v = "JInt (- (2 ^ 1024))",
      THEN conjunct2, THEN conjunct2, THEN mp, OF conjI [OF l conjI [OF pre_ok big]]]
    show ?thesis
      using th
      by (simp add: low_confidence_def entry_confidence_def rejection_line_def dict_get_def
          Let_def float_0_7_def)
  qed
  show ?thesis using c1 c2 c3 by (intro conjI)
qed

text \<open>An entry whose confidence is the string "high" is not read as 0.5 and rejected: the
  comparison with 0.7 raises, and the loop is left.\<close>

theorem non_numeric_confidence_counterexample:
  "validate_loop [JObj [(''text'', JStr ''d''), (''confidence'', JStr ''high'')]]
     [TranscriptHeader] [] = ([TranscriptHeader], Inl TypeError)"
  by (simp add: dict_get_def Let_def)

text \<open>
  C9: when the text parses to a non-empty array of objects none of which has a
  \<open>confidence\<close> member, every entry is read at confidence 0.5, which is below 0.7, and
  is rejected with a low-confidence line: the loop ends with an empty \<open>validated_entries\<close>
  and the method reports that nothing survived.
\<close>

theorem missing_confidence_rejected:
  assumes "json_loads json_text = Some (JArr entries)" and "entries \<noteq> []"
    and "\<forall>e \<in> set entries. omits_confidence e"
  shows "validate_loop entries [TranscriptHeader] []
      = ([TranscriptHeader] @ map rejection_line entries, Inr [])
    \<and> validate_and_print_transcript json_loads json_text a
      = ([TranscriptHeader] @ map rejection_line entries @ [NoHighConfidence], None)
    \<and> (\<forall>e \<in> set entries. spec_confidence e = Some (5 / 10) \<and> low_confidence e)"
proof -
  have all: "\<forall>e \<in> set entries. has_confidence e \<and> low_confidence e \<and> spec_confidence e = Some (5 / 10)"
    using assms(3) omits_confidence_low by blast
  then have num: "\<forall>e \<in> set entries. has_confidence e" by blast
  have f1: "filter low_confidence entries = entries" using all by (simp add: filter_id_conv)
  have f2: "filter (\<lambda>e. \<not> low_confidence e) entries = []" using all by (simp add: filter_empty_conv)
  have loop: "validate_loop entries [TranscriptHeader] []
      = ([TranscriptHeader] @ map rejection_line entries, Inr [])"
    using validate_loop_numeric [OF num, of "[TranscriptHeader]" "[]"] by (simp add: f1 f2)
  have ne: "truthy (JArr entries)" using assms(2) by simp
  have it: "py_iter (JArr entries) = Inr entries" by simp
  have "validate_and_print_transcript json_loads json_text a
      = ([TranscriptHeader] @ map rejection_line entries @ [NoHighConfidence], None)"
    using validate_completed [where json_loads = json_loads and json_text = json_text,
        OF assms(1) ne it loop, of a] by (simp add: length_check_def)
  with loop all show ?thesis by blast
qed

theorem missing_confidence_rejected_witness:
  "validate_loop [JObj [(''text'', JStr ''a'')], JObj []] [TranscriptHeader] []
     = ([TranscriptHeader,
         FilteredLowConfidence (JFloat (5 / 10)) (JStr []) (JStr ''Unknown'') (JStr ''a''),
         FilteredLowConfidence (JFloat (5 / 10)) (JStr []) (JStr ''Unknown'') (JStr [])], Inr [])
   \<and> validate_and_print_transcript (\<lambda>s. Some (JArr [JObj [(''text'', JStr ''a'')], JObj []]))
       ''t'' fallback
     = ([TranscriptHeader,
         FilteredLowConfidence (JFloat (5 / 10)) (JStr []) (JStr ''Unknown'') (JStr ''a''),
         FilteredLowConfidence (JFloat (5 / 10)) (JStr []) (JStr ''Unknown'') (JStr []),
         NoHighConfidence], None)"
  using missing_confidence_rejected [where
      json_loads = "\<lambda>s. Some (JArr [JObj [(''text'', JStr ''a'')], JObj []])"
      and json_text = "''t''" and a = fallback
      and entries = "[JObj [(''text'', JStr ''a'')], JObj []]"]
  by (simp add: omits_confidence_def rejection_line_def dict_get_def Let_def)

end
